theory Spec2Isabelle
  imports Complex_Main
begin

section \<open>Configuration (src/config.py)\<close>

text \<open>
  The fields of \<open>Config\<close> that the predictor and the request layer read. The values
  come from the process environment; here they are the fields of a record.
  \<open>HUGGINGFACE_TOKEN\<close> is \<open>Optional[str]\<close>.
\<close>

record config =
  HUGGINGFACE_TOKEN :: "string option"
  MODEL_NAME :: string
  CSV_PATH :: string
  MAX_TOP_K :: int
  DEFAULT_TOP_K :: int
  STARTUP_TIMEOUT :: int

section \<open>Python floats\<close>

text \<open>
  A Python \<open>float\<close> is an IEEE 754 binary64: a finite number, an infinity or a NaN. A
  finite float is kept as the real number it denotes, so that two finite floats compare
  as these numbers do; a NaN compares false with everything, itself included.
  \<open>float_ge a b\<close> is Python's \<open>a >= b\<close> and \<open>float_lt a b\<close> its \<open>a < b\<close>.
\<close>

datatype float64 = Finite real | PosInf | NegInf | NaN

fun float_ge :: "float64 \<Rightarrow> float64 \<Rightarrow> bool" where
  "float_ge NaN b = False"
| "float_ge a NaN = False"
| "float_ge PosInf b = True"
| "float_ge a NegInf = True"
| "float_ge NegInf b = False"
| "float_ge a PosInf = False"
| "float_ge (Finite x) (Finite y) = (x \<ge> y)"

fun float_lt :: "float64 \<Rightarrow> float64 \<Rightarrow> bool" where
  "float_lt NaN b = False"
| "float_lt a NaN = False"
| "float_lt a NegInf = False"
| "float_lt PosInf b = False"
| "float_lt NegInf b = True"
| "float_lt a PosInf = True"
| "float_lt (Finite x) (Finite y) = (x < y)"

text \<open>
  The finite binary64 numbers are the \<open>m\<close> times 2 to the \<open>e\<close> with a significand
  \<open>m\<close> of at most 53 bits. A decimal literal of the source is read as the binary64
  nearest to it: \<open>nearest_binary64 x m e\<close> says that the number with the full 53-bit
  significand \<open>m\<close> and the exponent \<open>e\<close> lies less than half a unit in the last place
  from \<open>x\<close>, which makes it the one float nearest to \<open>x\<close>.
\<close>

definition binary64 :: "int \<Rightarrow> int \<Rightarrow> real" where
  "binary64 m e = (if 0 \<le> e then of_int m * 2 ^ nat e else of_int m / 2 ^ nat (- e))"

definition nearest_binary64 :: "real \<Rightarrow> int \<Rightarrow> int \<Rightarrow> bool" where
  "nearest_binary64 x m e \<longleftrightarrow>
     2 ^ 52 \<le> m \<and> m < 2 ^ 53 \<and> - 1074 \<le> e \<and> e \<le> 971
     \<and> 2 * \<bar>x - binary64 m e\<bar> < binary64 1 e"

text \<open>The floats the literals \<open>0.8\<close>, \<open>0.6\<close> and \<open>0.4\<close> of the source are read as. The
  first and the third lie above the decimal, the second below it.\<close>

definition literal_0_8 :: float64 where
  "literal_0_8 = Finite (binary64 7205759403792794 (- 53))"

definition literal_0_6 :: float64 where
  "literal_0_6 = Finite (binary64 5404319552844595 (- 53))"

definition literal_0_4 :: float64 where
  "literal_0_4 = Finite (binary64 7205759403792794 (- 54))"

section \<open>Confidence labels (DrugPredictor.\_get\_confidence\_level)\<close>

text \<open>
  The score is a Python float and each test compares it with the float a literal is
  read as. The branches are those of the source, in its order; a NaN fails the three
  tests.
\<close>

definition get_confidence_level :: "float64 \<Rightarrow> string" where
  "get_confidence_level score =
     (if float_ge score literal_0_8 then ''high''
      else if float_ge score literal_0_6 then ''medium''
      else if float_ge score literal_0_4 then ''low''
      else ''very_low'')"

section \<open>The request layer's top-k (APIService, route /predict)\<close>

text \<open>
  \<open>request.get_json()\<close> yields a Python value: \<open>None\<close>, a \<open>bool\<close>, an \<open>int\<close>, a
  \<open>float\<close>, a \<open>str\<close>, a \<open>list\<close> or a \<open>dict\<close>. The request body \<open>data\<close> is a dict
  from keys to such values.
\<close>

datatype pyvalue =
    PyNone
  | PyBool bool
  | PyInt int
  | PyFloat real
  | PyStr string
  | PyList "pyvalue list"
  | PyDict "(string \<times> pyvalue) list"

text \<open>
  \<open>isinstance(v, int)\<close>: in Python \<open>bool\<close> is a subclass of \<open>int\<close>, so the test accepts
  \<open>True\<close> and \<open>False\<close> as well as the integers. In a comparison with an integer
  \<open>True\<close> counts as 1 and \<open>False\<close> as 0.
\<close>

fun isinstance_int :: "pyvalue \<Rightarrow> bool" where
  "isinstance_int (PyInt i) = True"
| "isinstance_int (PyBool b) = True"
| "isinstance_int v = False"

fun int_of :: "pyvalue \<Rightarrow> int" where
  "int_of (PyInt i) = i"
| "int_of (PyBool b) = (if b then 1 else 0)"
| "int_of v = 0"

text \<open>
  Lines 178 and 186-187 of the route:
  \<^verbatim>\<open>top_k = data.get('top_k', self.config.DEFAULT_TOP_K)\<close> and
  \<^verbatim>\<open>if not isinstance(top_k, int) or top_k < 1 or top_k > self.config.MAX_TOP_K:
      top_k = self.config.DEFAULT_TOP_K\<close>.
  The result is the value handed to \<open>DrugPredictor.predict\<close> and echoed in the reply.
\<close>

definition request_top_k :: "config \<Rightarrow> (string \<rightharpoonup> pyvalue) \<Rightarrow> pyvalue" where
  "request_top_k cfg data =
     (let top_k = (case data ''top_k'' of None \<Rightarrow> PyInt (DEFAULT_TOP_K cfg) | Some v \<Rightarrow> v)
      in if \<not> isinstance_int top_k then PyInt (DEFAULT_TOP_K cfg)
         else if int_of top_k < 1 then PyInt (DEFAULT_TOP_K cfg)
         else if int_of top_k > MAX_TOP_K cfg then PyInt (DEFAULT_TOP_K cfg)
         else top_k)"

text \<open>The configuration of src/config.py when the environment sets none of its variables.\<close>

definition default_config :: config where
  "default_config =
     \<lparr> HUGGINGFACE_TOKEN = None,
       MODEL_NAME = ''your-username/your-model-name'',
       CSV_PATH = ''data/df_obat.csv'',
       MAX_TOP_K = 20,
       DEFAULT_TOP_K = 5,
       STARTUP_TIMEOUT = 600 \<rparr>"

section \<open>Exceptions\<close>

text \<open>
  The exceptions the source raises itself are \<open>RuntimeError\<close>, \<open>ValueError\<close> and
  \<open>FileNotFoundError\<close>; the interpreter raises \<open>AttributeError\<close>, \<open>TypeError\<close>,
  \<open>IndexError\<close> and \<open>KeyError\<close> on a \<open>None\<close> receiver, a bad position or a missing
  column. A constructor stands for its class and the subclasses of it, and
  \<open>LibraryError\<close> for every other class. What \<open>login\<close>, \<open>SentenceTransformer\<close> and
  \<open>read_csv\<close> raise is caught by the handlers of the build, which read only the text
  \<open>str(e)\<close>: it is kept as a \<open>LibraryError\<close> with that text. What \<open>model.encode\<close> and
  \<open>cosine_similarity\<close> raise leaves \<open>predict\<close> as it was raised: their results carry the
  exception itself, whatever its class.
\<close>

datatype exn =
    RuntimeError string
  | ValueError string
  | FileNotFoundError string
  | AttributeError string
  | TypeError string
  | IndexError string
  | KeyError string
  | LibraryError string

fun str :: "exn \<Rightarrow> string" where
  "str (RuntimeError m) = m"
| "str (ValueError m) = m"
| "str (FileNotFoundError m) = m"
| "str (AttributeError m) = m"
| "str (TypeError m) = m"
| "str (IndexError m) = m"
| "str (KeyError m) = m"
| "str (LibraryError m) = m"

section \<open>The data of the predictor (DrugPredictor.\_\_init\_\_)\<close>

text \<open>
  A vector is a row of an embedding array. The encoder is the loaded
  \<open>SentenceTransformer\<close>: \<open>encode\<close> takes a list of texts and returns an array with
  one row per text, or raises (\<open>Inl\<close> holds the exception).
\<close>

type_synonym vector = "real list"

type_synonym encoder = "string list \<Rightarrow> exn + vector list"

text \<open>
  A pandas frame: its column names in order, and its rows. A row gives the text of the
  cell under each column (what \<open>astype(str)\<close> yields); under a name that is not a
  column its value is immaterial.
\<close>

record dataframe =
  columns :: "string list"
  rows :: "(string \<Rightarrow> string) list"

text \<open>The four values the \<open>status\<close> entry takes: the strings \<open>not_started\<close>,
  \<open>in_progress\<close>, \<open>completed\<close> and \<open>failed\<close>.\<close>

datatype run_status = NotStarted | InProgress | Completed | Failed

record initialization_status =
  status :: run_status
  error :: "string option"
  progress :: int
  message :: string
  start_time :: "real option"
  end_time :: "real option"

record predictor =
  model :: "encoder option"
  drug_embeddings :: "vector list option"
  df_drugs :: "dataframe option"
  initialization_status :: initialization_status

definition new_predictor :: predictor where
  "new_predictor =
     \<lparr> model = None,
       drug_embeddings = None,
       df_drugs = None,
       initialization_status =
         \<lparr> status = NotStarted, error = None, progress = 0, message = [],
           start_time = None, end_time = None \<rparr> \<rparr>"

text \<open>One store into the object or into its status dict.\<close>

definition set_status :: "run_status \<Rightarrow> predictor \<Rightarrow> predictor" where
  "set_status v self = self\<lparr>initialization_status := (initialization_status self)\<lparr>status := v\<rparr>\<rparr>"

definition set_error :: "string option \<Rightarrow> predictor \<Rightarrow> predictor" where
  "set_error v self = self\<lparr>initialization_status := (initialization_status self)\<lparr>error := v\<rparr>\<rparr>"

definition set_progress :: "int \<Rightarrow> predictor \<Rightarrow> predictor" where
  "set_progress v self = self\<lparr>initialization_status := (initialization_status self)\<lparr>progress := v\<rparr>\<rparr>"

definition set_message :: "string \<Rightarrow> predictor \<Rightarrow> predictor" where
  "set_message v self = self\<lparr>initialization_status := (initialization_status self)\<lparr>message := v\<rparr>\<rparr>"

definition set_start_time :: "real option \<Rightarrow> predictor \<Rightarrow> predictor" where
  "set_start_time v self = self\<lparr>initialization_status := (initialization_status self)\<lparr>start_time := v\<rparr>\<rparr>"

definition set_end_time :: "real option \<Rightarrow> predictor \<Rightarrow> predictor" where
  "set_end_time v self = self\<lparr>initialization_status := (initialization_status self)\<lparr>end_time := v\<rparr>\<rparr>"

definition set_model :: "encoder option \<Rightarrow> predictor \<Rightarrow> predictor" where
  "set_model v self = self\<lparr>model := v\<rparr>"

definition set_df_drugs :: "dataframe option \<Rightarrow> predictor \<Rightarrow> predictor" where
  "set_df_drugs v self = self\<lparr>df_drugs := v\<rparr>"

definition set_drug_embeddings :: "vector list option \<Rightarrow> predictor \<Rightarrow> predictor" where
  "set_drug_embeddings v self = self\<lparr>drug_embeddings := v\<rparr>"

definition status_of :: "predictor \<Rightarrow> run_status" where
  "status_of self = status (initialization_status self)"

section \<open>The libraries and the operating system\<close>

text \<open>
  What one run of the code gets from outside: \<open>login(token=...)\<close> (\<open>Some\<close> is the text
  of the exception it raises), \<open>SentenceTransformer(name, trust_remote_code=True)\<close>,
  \<open>os.path.exists\<close>, \<open>pd.read_csv\<close>, the two readings of \<open>time.time()\<close> a build
  makes (at its start and at its end), \<open>sklearn\<close>'s \<open>cosine_similarity\<close> and
  \<open>np.argsort\<close>. \<open>cosine_similarity(X, Y)\<close> is handed \<open>self.drug_embeddings\<close> as it
  is, \<open>None\<close> included; it returns a matrix of finite scores, kept as the reals they
  denote, or raises (\<open>Inl\<close> holds the exception). \<open>np.argsort\<close> returns positions.
\<close>

record world =
  login :: "string \<Rightarrow> string option"
  SentenceTransformer :: "string \<Rightarrow> string + encoder"
  path_exists :: "string \<Rightarrow> bool"
  read_csv :: "string \<Rightarrow> string + dataframe"
  time_start :: real
  time_end :: real
  cosine_similarity :: "vector list \<Rightarrow> vector list option \<Rightarrow> exn + real list list"
  argsort :: "real list \<Rightarrow> nat list"

section \<open>The build (DrugPredictor.\_initialize\_sync and its two helpers)\<close>

text \<open>
  The build is the only writer of the object while it holds the lock. Its effect is the
  sequence of states the object passes through, one per store, in the order of the
  source. A trace is that sequence so far, newest first and never empty: its head is
  the current state, and its last element the state the build found.
\<close>

definition store :: "(predictor \<Rightarrow> predictor) \<Rightarrow> predictor list \<Rightarrow> predictor list" where
  "store f tr = f (hd tr) # tr"

definition stores :: "(predictor \<Rightarrow> predictor) list \<Rightarrow> predictor list \<Rightarrow> predictor list" where
  "stores fs tr = foldl (\<lambda>t f. store f t) tr fs"

text \<open>
  \<open>df[c] = values\<close>: the column is replaced where it stands, or appended.
  \<open>drop_duplicates(subset=[c]).reset_index(drop=True)\<close>: of the rows with the same
  text under \<open>c\<close> the first is kept, in the order of the frame.
\<close>

definition set_column :: "string \<Rightarrow> string list \<Rightarrow> dataframe \<Rightarrow> dataframe" where
  "set_column c vals df =
     \<lparr> columns = (if c \<in> set (columns df) then columns df else columns df @ [c]),
       rows = map (\<lambda>(r, v). r(c := v)) (zip (rows df) vals) \<rparr>"

fun keep_first :: "('a \<Rightarrow> 'k) \<Rightarrow> 'k list \<Rightarrow> 'a list \<Rightarrow> 'a list" where
  "keep_first key seen [] = []"
| "keep_first key seen (r # rs) =
     (if key r \<in> set seen then keep_first key seen rs
      else r # keep_first key (key r # seen) rs)"

definition drop_duplicates :: "string \<Rightarrow> dataframe \<Rightarrow> dataframe" where
  "drop_duplicates c df = df\<lparr>rows := keep_first (\<lambda>r. r c) [] (rows df)\<rparr>"

text \<open>The text Python prints for a list of strings, as in \<open>f"{missing_columns}"\<close>
  (names without quotes or backslashes).\<close>

fun join_commas :: "string list \<Rightarrow> string" where
  "join_commas [] = []"
| "join_commas [x] = x"
| "join_commas (x # y # ys) = x @ '', '' @ join_commas (y # ys)"

definition repr_list :: "string list \<Rightarrow> string" where
  "repr_list xs = ''['' @ join_commas (map (\<lambda>x. [CHR 0x27] @ x @ [CHR 0x27]) xs) @ '']''"

definition required_columns :: "string list" where
  "required_columns = [''Nama'', ''DeskripsiObat'']"

text \<open>
  The \<open>try\<close> block of \<open>_load_drug_database\<close> (lines 143-161): the exception it ends
  with, if any, and the trace. The frame is stored as read (line 146) before its columns
  are checked; line 157 adds the column \<open>ObatLengkap\<close> to the stored frame in place
  and line 158 stores the frame without duplicates.
\<close>

definition load_drug_database_try :: "config \<Rightarrow> world \<Rightarrow> predictor list \<Rightarrow> exn option \<times> predictor list" where
  "load_drug_database_try cfg w tr =
     (if \<not> path_exists w (CSV_PATH cfg)
      then (Some (FileNotFoundError (''CSV file not found: '' @ CSV_PATH cfg)), tr)
      else
        (case read_csv w (CSV_PATH cfg) of
           Inl m \<Rightarrow> (Some (LibraryError m), tr)
         | Inr df \<Rightarrow>
             (let tr1 = store (set_df_drugs (Some df)) tr;
                  missing_columns = filter (\<lambda>col. col \<notin> set (columns df)) required_columns
              in if missing_columns \<noteq> []
                 then (Some (ValueError (''Missing columns: '' @ repr_list missing_columns
                         @ ''. Available: '' @ repr_list (columns df))), tr1)
                 else
                   (let df1 = set_column ''ObatLengkap''
                                (map (\<lambda>r. r ''Nama'' @ '' - '' @ r ''DeskripsiObat'') (rows df)) df;
                        tr2 = store (set_df_drugs (Some df1)) tr1;
                        tr3 = store (set_df_drugs (Some (drop_duplicates ''ObatLengkap'' df1))) tr2
                    in (None, tr3)))))"

text \<open>\<open>_load_drug_database\<close> with its handler (lines 163-168): the handler stores the
  status and the error, and returns \<open>False\<close>.\<close>

definition load_drug_database :: "config \<Rightarrow> world \<Rightarrow> predictor list \<Rightarrow> bool \<times> predictor list" where
  "load_drug_database cfg w tr =
     (case load_drug_database_try cfg w tr of
        (None, tr') \<Rightarrow> (True, tr')
      | (Some e, tr') \<Rightarrow>
          (False, stores [set_status Failed,
                          set_error (Some (''Error loading drug database: '' @ str e))] tr'))"

text \<open>The \<open>try\<close> block of \<open>_generate_embeddings\<close> (lines 173-181). It reads the frame
  and the encoder the build has stored.\<close>

definition generate_embeddings_try :: "predictor list \<Rightarrow> exn option \<times> predictor list" where
  "generate_embeddings_try tr =
     (case df_drugs (hd tr) of
        None \<Rightarrow> (Some (TypeError ''NoneType object is not subscriptable''), tr)
      | Some df \<Rightarrow>
          (if ''ObatLengkap'' \<notin> set (columns df) then (Some (KeyError ''ObatLengkap''), tr)
           else
             (let drug_texts = map (\<lambda>r. r ''ObatLengkap'') (rows df)
              in (case model (hd tr) of
                    None \<Rightarrow> (Some (AttributeError ''NoneType object has no attribute encode''), tr)
                  | Some m \<Rightarrow>
                      (case m drug_texts of
                         Inl e \<Rightarrow> (Some e, tr)
                       | Inr embeddings \<Rightarrow>
                           (None, store (set_drug_embeddings (Some embeddings)) tr))))))"

definition generate_embeddings :: "predictor list \<Rightarrow> bool \<times> predictor list" where
  "generate_embeddings tr =
     (case generate_embeddings_try tr of
        (None, tr') \<Rightarrow> (True, tr')
      | (Some e, tr') \<Rightarrow>
          (False, stores [set_status Failed,
                          set_error (Some (''Error generating embeddings: '' @ str e))] tr'))"

text \<open>How the \<open>try\<close> block of \<open>_initialize_sync\<close> ends: by an exception, or by a
  \<open>return\<close>.\<close>

datatype outcome = Raised exn | Returned bool

text \<open>Step 1 (lines 62-66): the login, only for a token that is neither \<open>None\<close> nor
  empty.\<close>

definition login_step :: "config \<Rightarrow> world \<Rightarrow> predictor list \<Rightarrow> exn option \<times> predictor list" where
  "login_step cfg w tr =
     (case HUGGINGFACE_TOKEN cfg of
        None \<Rightarrow> (None, tr)
      | Some token \<Rightarrow>
          if token = [] then (None, tr)
          else (case login w token of
                  Some m \<Rightarrow> (Some (LibraryError m), tr)
                | None \<Rightarrow> (None, stores [set_progress 10,
                                          set_message ''Logged in to Hugging Face''] tr)))"

text \<open>The \<open>try\<close> block of \<open>_initialize_sync\<close> (lines 61-108).\<close>

definition initialize_sync_try :: "config \<Rightarrow> world \<Rightarrow> predictor list \<Rightarrow> outcome \<times> predictor list" where
  "initialize_sync_try cfg w tr =
     (case login_step cfg w tr of
        (Some e, tr1) \<Rightarrow> (Raised e, tr1)
      | (None, tr1) \<Rightarrow>
          (let tr2 = stores [set_progress 20,
                             set_message ''Loading model from Hugging Face...''] tr1
           in (case SentenceTransformer w (MODEL_NAME cfg) of
                 Inl m \<Rightarrow> (Raised (LibraryError m), tr2)
               | Inr enc \<Rightarrow>
                   (let tr3 = stores [set_model (Some enc),
                                      set_progress 50,
                                      set_message ''Model loaded successfully'',
                                      set_progress 60,
                                      set_message ''Loading drug database...''] tr2
                    in (case load_drug_database cfg w tr3 of
                          (False, tr4) \<Rightarrow> (Returned False, tr4)
                        | (True, tr4) \<Rightarrow>
                            (let tr5 = stores [set_progress 80,
                                               set_message ''Generating embeddings...''] tr4
                             in (case generate_embeddings tr5 of
                                   (False, tr6) \<Rightarrow> (Returned False, tr6)
                                 | (True, tr6) \<Rightarrow>
                                     (Returned True,
                                      stores [set_status Completed,
                                              set_progress 100,
                                              set_message ''Initialization completed successfully'',
                                              set_error None,
                                              set_end_time (Some (time_end w))] tr6))))))))"

text \<open>
  \<open>_initialize_sync\<close>, entered with the lock held, on the object as it is then: the
  value it returns and the states it stores, in order (none when it returns at once).
  The handler of lines 110-117 stores the status, the error, the message and the end
  time.
\<close>

definition initialize_sync :: "config \<Rightarrow> world \<Rightarrow> predictor \<Rightarrow> bool \<times> predictor list" where
  "initialize_sync cfg w self =
     (if status_of self = Completed then (True, [])
      else if status_of self = InProgress then (False, [])
      else
        (let tr0 = stores [set_status InProgress,
                           set_progress 0,
                           set_message ''Starting initialization...'',
                           set_start_time (Some (time_start w)),
                           set_error None] [self]
         in (case initialize_sync_try cfg w tr0 of
               (Returned b, tr) \<Rightarrow> (b, rev (butlast tr))
             | (Raised e, tr) \<Rightarrow>
                 (let error_msg = ''Initialization failed: '' @ str e
                  in (False, rev (butlast (stores [set_status Failed,
                                                   set_error (Some error_msg),
                                                   set_message error_msg,
                                                   set_end_time (Some (time_end w))] tr)))))))"

text \<open>A call of \<open>initialize(background=False)\<close> that finds the lock free: the value
  returned and the object when the call returns.\<close>

definition initialize_now :: "config \<Rightarrow> world \<Rightarrow> predictor \<Rightarrow> bool \<times> predictor" where
  "initialize_now cfg w self =
     (case initialize_sync cfg w self of (b, writes) \<Rightarrow> (b, last (self # writes)))"

text \<open>Calls one after the other, each in the world of its time: the values returned and
  the object after the last.\<close>

fun initialize_calls :: "config \<Rightarrow> world list \<Rightarrow> predictor \<Rightarrow> bool list \<times> predictor" where
  "initialize_calls cfg [] self = ([], self)"
| "initialize_calls cfg (w # ws) self =
     (case initialize_now cfg w self of
        (b, self') \<Rightarrow> (case initialize_calls cfg ws self' of (bs, self'') \<Rightarrow> (b # bs, self'')))"

section \<open>Serving a query (DrugPredictor.predict)\<close>

text \<open>
  \<open>str.strip()\<close> removes the whitespace at both ends. A string is a list of characters
  with code points below 256; among them Python counts these as whitespace.
\<close>

definition isspace :: "char \<Rightarrow> bool" where
  "isspace c \<longleftrightarrow>
     c \<in> set [CHR 0x09, CHR 0x0A, CHR 0x0B, CHR 0x0C, CHR 0x0D, CHR 0x1C, CHR 0x1D,
              CHR 0x1E, CHR 0x1F, CHR 0x20, CHR 0x85, CHR 0xA0]"

definition strip :: "string \<Rightarrow> string" where
  "strip s = rev (dropWhile isspace (rev (dropWhile isspace s)))"

text \<open>\<open>xs[:k]\<close>: the first \<open>k\<close> elements, and for a negative \<open>k\<close> all but the last
  \<open>-k\<close>.\<close>

definition slice_to :: "int \<Rightarrow> 'a list \<Rightarrow> 'a list" where
  "slice_to k xs = (if 0 \<le> k then take (nat k) xs else take (length xs - nat (- k)) xs)"

record prediction =
  rank :: nat
  nama_obat :: string
  deskripsi_obat :: string
  similarity_score :: float64
  confidence :: string

text \<open>
  The loop of lines 212-220 over the pairs of an index and its score, \<open>i\<close> counting
  the pairs done. \<open>self.df_drugs.iloc[idx]\<close> raises on a missing frame and on a
  position past its end, and \<open>['Nama']\<close> on a missing column. \<open>float(score)\<close> is the
  Python float of the score.
\<close>

fun format_results :: "dataframe option \<Rightarrow> nat \<Rightarrow> (nat \<times> real) list \<Rightarrow> exn + prediction list" where
  "format_results df i [] = Inr []"
| "format_results df i ((idx, score) # rest) =
     (case df of
        None \<Rightarrow> Inl (AttributeError ''NoneType object has no attribute iloc'')
      | Some d \<Rightarrow>
          (if length (rows d) \<le> idx
           then Inl (IndexError ''single positional indexer is out-of-bounds'')
           else if ''Nama'' \<notin> set (columns d) then Inl (KeyError ''Nama'')
           else if ''DeskripsiObat'' \<notin> set (columns d) then Inl (KeyError ''DeskripsiObat'')
           else
             (case format_results df (i + 1) rest of
                Inl e \<Rightarrow> Inl e
              | Inr results \<Rightarrow>
                  Inr (\<lparr> rank = i + 1,
                         nama_obat = (rows d ! idx) ''Nama'',
                         deskripsi_obat = (rows d ! idx) ''DeskripsiObat'',
                         similarity_score = Finite score,
                         confidence = get_confidence_level (Finite score) \<rparr> # results))))"

text \<open>
  Line 207, \<open>np.argsort(similarities)[::-1][:top_k]\<close>: the ascending argsort
  reversed, cut to its first \<open>top_k\<close> entries.
\<close>

definition top_indices :: "world \<Rightarrow> real list \<Rightarrow> int \<Rightarrow> nat list" where
  "top_indices w similarities top_k = slice_to top_k (rev (argsort w similarities))"

text \<open>
  \<open>predict\<close> (lines 190-222). Nothing in it catches: what \<open>self.model.encode\<close> or
  \<open>cosine_similarity\<close> raises is what \<open>predict\<close> raises. \<open>cosine_similarity(...)[0]\<close>
  is the first row of the matrix; \<open>similarities[top_indices]\<close> raises on an index past
  the end.
\<close>

definition predict :: "world \<Rightarrow> predictor \<Rightarrow> string \<Rightarrow> string \<Rightarrow> int \<Rightarrow> exn + prediction list" where
  "predict w self keluhan anamnesa top_k =
     (if status_of self \<noteq> Completed then Inl (RuntimeError ''Model not initialized'')
      else
        (let query = strip (keluhan @ '' '' @ anamnesa)
         in if query = [] then Inl (ValueError ''Query cannot be empty'')
            else
              (case model self of
                 None \<Rightarrow> Inl (AttributeError ''NoneType object has no attribute encode'')
               | Some m \<Rightarrow>
                   (case m [query] of
                      Inl e \<Rightarrow> Inl e
                    | Inr query_embedding \<Rightarrow>
                        (case cosine_similarity w query_embedding (drug_embeddings self) of
                           Inl e \<Rightarrow> Inl e
                         | Inr [] \<Rightarrow> Inl (IndexError ''index 0 is out of bounds'')
                         | Inr (similarities # others) \<Rightarrow>
                             (let indices = top_indices w similarities top_k
                              in if list_ex (\<lambda>idx. length similarities \<le> idx) indices
                                 then Inl (IndexError ''index is out of bounds'')
                                 else format_results (df_drugs self) 0
                                        (zip indices
                                             (map (\<lambda>idx. similarities ! idx) indices))))))))"

section \<open>The read-only accessors (is\_ready, get\_status, get\_stats)\<close>

definition is_ready :: "predictor \<Rightarrow> bool" where
  "is_ready self \<longleftrightarrow> status_of self = Completed"

text \<open>
  \<open>get_status\<close> copies the status dict and adds the duration and three flags. The
  duration is present only for a start time that is neither \<open>None\<close> nor zero; it runs
  to the end time when that is neither \<open>None\<close> nor zero, and to \<open>now\<close>, the reading of
  \<open>time.time()\<close> at the call, otherwise. No lock is taken.
\<close>

record status_report = initialization_status +
  duration :: "real option"
  model_loaded :: bool
  embeddings_loaded :: bool
  database_loaded :: bool

definition truthy :: "real option \<Rightarrow> bool" where
  "truthy t = (case t of None \<Rightarrow> False | Some x \<Rightarrow> x \<noteq> 0)"

definition get_status :: "real \<Rightarrow> predictor \<Rightarrow> status_report" where
  "get_status now self =
     (let st = initialization_status self
      in \<lparr> status = status st,
           error = error st,
           progress = progress st,
           message = message st,
           start_time = start_time st,
           end_time = end_time st,
           duration =
             (if truthy (start_time st)
              then (if truthy (end_time st)
                    then Some (the (end_time st) - the (start_time st))
                    else Some (now - the (start_time st)))
              else None),
           model_loaded = (model self \<noteq> None),
           embeddings_loaded = (drug_embeddings self \<noteq> None),
           database_loaded = (df_drugs self \<noteq> None) \<rparr>)"

text \<open>The \<open>shape\<close> of the embedding array: rows and row length, and \<open>(0,)\<close> for the
  array of no rows.\<close>

definition shape :: "vector list \<Rightarrow> nat list" where
  "shape embeddings = (case embeddings of [] \<Rightarrow> [0] | v # vs \<Rightarrow> [length embeddings, length v])"

record stats =
  total_drugs :: nat
  stats_columns :: "string list"
  embedding_shape :: "nat list option"
  model_name :: string
  csv_path :: string

text \<open>\<open>get_stats\<close> (lines 259-270): \<open>Inl\<close> is the dict with the single key \<open>error\<close>.\<close>

definition get_stats :: "config \<Rightarrow> predictor \<Rightarrow> string + stats" where
  "get_stats cfg self =
     (case df_drugs self of
        None \<Rightarrow> Inl ''Database not loaded''
      | Some df \<Rightarrow>
          Inr \<lparr> total_drugs = length (rows df),
                stats_columns = columns df,
                embedding_shape =
                  (case drug_embeddings self of None \<Rightarrow> None | Some e \<Rightarrow> Some (shape e)),
                model_name = MODEL_NAME cfg,
                csv_path = CSV_PATH cfg \<rparr>)"

section \<open>Threads and the lock (DrugPredictor.initialize)\<close>

text \<open>
  An activation of \<open>_initialize_sync\<close> is waiting at \<open>with self._lock\<close>, or inside the
  lock with the value it will return and the stores it has still to make, or finished
  with the value it returned. The system is the object, the lock, the activations in
  the order they were started, and \<open>self._initialization_thread\<close>.
\<close>

datatype thread = Waiting | Running bool "predictor list" | Finished bool

fun is_alive :: "thread \<Rightarrow> bool" where
  "is_alive Waiting = True"
| "is_alive (Running r ws) = True"
| "is_alive (Finished r) = False"

fun is_running :: "thread \<Rightarrow> bool" where
  "is_running (Running r ws) = True"
| "is_running t = False"

fun pending :: "thread \<Rightarrow> predictor list" where
  "pending (Running r ws) = ws"
| "pending t = []"

record system =
  shared :: predictor
  lock_held :: bool
  threads :: "thread list"
  initialization_thread :: "nat option"

definition new_system :: system where
  "new_system = \<lparr> shared = new_predictor, lock_held = False, threads = [],
                  initialization_thread = None \<rparr>"

definition thread_alive :: "system \<Rightarrow> bool" where
  "thread_alive sys =
     (case initialization_thread sys of
        None \<Rightarrow> False
      | Some i \<Rightarrow> i < length (threads sys) \<and> is_alive (threads sys ! i))"

text \<open>
  \<open>initialize\<close> (lines 31-43). In the background it returns \<open>True\<close> at once: with a live
  thread it starts nothing, otherwise it starts a thread on \<open>_initialize_sync\<close> and
  keeps it in \<open>self._initialization_thread\<close>. In the foreground the caller itself
  enters \<open>_initialize_sync\<close>.
\<close>

definition initialize :: "bool \<Rightarrow> system \<Rightarrow> system" where
  "initialize background sys =
     (if background
      then (if thread_alive sys then sys
            else sys\<lparr> threads := threads sys @ [Waiting],
                      initialization_thread := Some (length (threads sys)) \<rparr>)
      else sys\<lparr> threads := threads sys @ [Waiting] \<rparr>)"

text \<open>
  One step of the system: a call of \<open>initialize\<close>; a waiting activation takes the free
  lock, in some world of \<open>W\<close>, and from then on its stores are those of
  \<open>initialize_sync\<close> on the object as it found it; an activation makes its next store;
  an activation with no store left returns and frees the lock. The readers take no
  lock: they may run on the object of any reachable system.
\<close>

inductive step :: "config \<Rightarrow> world set \<Rightarrow> system \<Rightarrow> system \<Rightarrow> bool"
  for cfg :: config and W :: "world set" where
  call: "step cfg W sys (initialize background sys)"
| acquire:
    "i < length (threads sys) \<Longrightarrow> threads sys ! i = Waiting \<Longrightarrow> \<not> lock_held sys \<Longrightarrow> w \<in> W
     \<Longrightarrow> initialize_sync cfg w (shared sys) = (r, writes)
     \<Longrightarrow> step cfg W sys (sys\<lparr> lock_held := True, threads := (threads sys)[i := Running r writes] \<rparr>)"
| store_next:
    "i < length (threads sys) \<Longrightarrow> threads sys ! i = Running r (s # rest)
     \<Longrightarrow> step cfg W sys (sys\<lparr> shared := s, threads := (threads sys)[i := Running r rest] \<rparr>)"
| release:
    "i < length (threads sys) \<Longrightarrow> threads sys ! i = Running r []
     \<Longrightarrow> step cfg W sys (sys\<lparr> lock_held := False, threads := (threads sys)[i := Finished r] \<rparr>)"

inductive reachable :: "config \<Rightarrow> world set \<Rightarrow> system \<Rightarrow> bool"
  for cfg :: config and W :: "world set" where
  start: "reachable cfg W new_system"
| further: "reachable cfg W sys \<Longrightarrow> step cfg W sys sys' \<Longrightarrow> reachable cfg W sys'"

text \<open>The index the readers find: a frame and an embedding array with one row each per
  record.\<close>

definition index_consistent :: "predictor \<Rightarrow> bool" where
  "index_consistent self =
     (case (df_drugs self, drug_embeddings self) of
        (Some df, Some embeddings) \<Rightarrow> length (rows df) = length embeddings
      | other \<Rightarrow> False)"

text \<open>What \<open>predict\<close> reads of the index besides: the encoder, and the columns
  \<open>Nama\<close> and \<open>DeskripsiObat\<close> of the frame. An object is well published when it has
  them whenever its status is \<open>completed\<close>.\<close>

definition index_complete :: "predictor \<Rightarrow> bool" where
  "index_complete self \<longleftrightarrow>
     model self \<noteq> None
     \<and> (case df_drugs self of
          None \<Rightarrow> False
        | Some df \<Rightarrow> ''Nama'' \<in> set (columns df) \<and> ''DeskripsiObat'' \<in> set (columns df))"

definition published :: "predictor \<Rightarrow> bool" where
  "published self \<longleftrightarrow> (status_of self = Completed \<longrightarrow> index_complete self)"

text \<open>What is asked of an encoder: one row per text.\<close>

definition encoder_rows :: "world \<Rightarrow> bool" where
  "encoder_rows w =
     (\<forall>name enc texts embeddings.
        SentenceTransformer w name = Inr enc \<longrightarrow> enc texts = Inr embeddings
        \<longrightarrow> length embeddings = length texts)"

text \<open>A system whose build has completed: the status is \<open>completed\<close> and no
  activation has a store left to make.\<close>

definition settled :: "system \<Rightarrow> bool" where
  "settled sys \<longleftrightarrow>
     status_of (shared sys) = Completed \<and> list_all (\<lambda>t. pending t = []) (threads sys)"

text \<open>Two states of the object, one after the other: once the status is \<open>completed\<close>
  it stays so, and the encoder, the frame and the embeddings stay what they are.\<close>

definition frozen :: "predictor \<Rightarrow> predictor \<Rightarrow> bool" where
  "frozen s s' \<longleftrightarrow>
     (status_of s = Completed \<longrightarrow>
        status_of s' = Completed \<and> model s' = model s \<and> df_drugs s' = df_drugs s
        \<and> drug_embeddings s' = drug_embeddings s)"

text \<open>No two activations are inside the lock, and the lock is held exactly when one
  is.\<close>

definition exclusive :: "system \<Rightarrow> bool" where
  "exclusive sys \<longleftrightarrow>
     (\<forall>i j. i < length (threads sys) \<and> j < length (threads sys)
            \<and> is_running (threads sys ! i) \<and> is_running (threads sys ! j) \<longrightarrow> i = j)
     \<and> (lock_held sys \<longleftrightarrow> list_ex is_running (threads sys))"

text \<open>A trace of a build that has not completed: no state in it has the status
  \<open>completed\<close>.\<close>

definition building :: "predictor list \<Rightarrow> bool" where
  "building tr \<longleftrightarrow> tr \<noteq> [] \<and> list_all (\<lambda>s. status_of s \<noteq> Completed) tr"

text \<open>
  The stores \<open>ws\<close> an activation has still to make on the object \<open>self\<close> are well
  written when each leaves a completed index as it is, the last does not leave the
  status \<open>in_progress\<close>, and, if the encoders give one row per text (\<open>rows_ok\<close>), every
  state with the status \<open>completed\<close> has a consistent index.
\<close>

definition well_written :: "bool \<Rightarrow> predictor \<Rightarrow> predictor list \<Rightarrow> bool" where
  "well_written rows_ok self ws \<longleftrightarrow>
     successively frozen (self # ws)
     \<and> status_of (last (self # ws)) \<noteq> InProgress
     \<and> (rows_ok \<longrightarrow> list_all (\<lambda>s. status_of s = Completed \<longrightarrow> index_consistent s) ws)"

definition safe :: "bool \<Rightarrow> system \<Rightarrow> bool" where
  "safe rows_ok sys \<longleftrightarrow>
     (\<forall>i r ws. i < length (threads sys) \<and> threads sys ! i = Running r ws
        \<longrightarrow> well_written rows_ok (shared sys) ws)
     \<and> (\<not> lock_held sys \<longrightarrow> status_of (shared sys) \<noteq> InProgress)
     \<and> (rows_ok \<longrightarrow> status_of (shared sys) = Completed \<longrightarrow> index_consistent (shared sys))"

text \<open>The object and every store an activation has still to make are well
  published.\<close>

definition all_published :: "system \<Rightarrow> bool" where
  "all_published sys \<longleftrightarrow>
     published (shared sys) \<and> list_all (\<lambda>t. list_all published (pending t)) (threads sys)"

section \<open>Waiting for the build (DrugPredictor.wait\_for\_initialization)\<close>

text \<open>
  \<open>timeout = timeout or self.config.STARTUP_TIMEOUT\<close>: the configured timeout stands
  in for \<open>None\<close> and for zero.
\<close>

definition timeout_or_default :: "config \<Rightarrow> real option \<Rightarrow> real" where
  "timeout_or_default cfg timeout =
     (if truthy timeout then the timeout else real_of_int (STARTUP_TIMEOUT cfg))"

text \<open>
  Each turn of the loop reads the clock in its test and, if the test passes, the status.
  A poll is that pair of readings, as the turn finds them; the list of polls is what the
  loop is given to read, and the loop that has read them all without leaving has no
  result. The loop's own effects are the calls of \<open>initialize(background=True)\<close> and of
  \<open>time.sleep(1)\<close>, in order.
\<close>

record poll =
  clock :: real
  seen :: run_status

datatype wait_event = Initialize_background | Sleep real

fun wait_loop :: "real \<Rightarrow> real \<Rightarrow> poll list \<Rightarrow> (bool \<times> wait_event list) option" where
  "wait_loop timeout t0 [] = None"
| "wait_loop timeout t0 (p # ps) =
     (if clock p - t0 < timeout
      then (case seen p of
              Completed \<Rightarrow> Some (True, [])
            | Failed \<Rightarrow> Some (False, [])
            | NotStarted \<Rightarrow>
                (case wait_loop timeout t0 ps of
                   None \<Rightarrow> None
                 | Some (r, es) \<Rightarrow> Some (r, Initialize_background # Sleep 1 # es))
            | InProgress \<Rightarrow>
                (case wait_loop timeout t0 ps of
                   None \<Rightarrow> None
                 | Some (r, es) \<Rightarrow> Some (r, Sleep 1 # es)))
      else Some (False, []))"

definition wait_for_initialization ::
    "config \<Rightarrow> real option \<Rightarrow> real \<Rightarrow> poll list \<Rightarrow> (bool \<times> wait_event list) option" where
  "wait_for_initialization cfg timeout t0 polls =
     wait_loop (timeout_or_default cfg timeout) t0 polls"

text \<open>The effects of a turn that goes on to the next: a background call when it saw
  \<open>not_started\<close>, then the sleep of one second.\<close>

definition turn_events :: "poll \<Rightarrow> wait_event list" where
  "turn_events p = (if seen p = NotStarted then [Initialize_background, Sleep 1] else [Sleep 1])"

definition goes_on :: "real \<Rightarrow> real \<Rightarrow> poll \<Rightarrow> bool" where
  "goes_on timeout t0 p \<longleftrightarrow>
     clock p - t0 < timeout \<and> (seen p = NotStarted \<or> seen p = InProgress)"

section \<open>A catalog of three records\<close>

text \<open>
  The libraries of the examples, for a catalog with the records A, B and C whose scores
  against the query are 0.9, 0.9 and 0.5: the floats these literals are read as.
\<close>

definition score_0_9 :: real where
  "score_0_9 = binary64 8106479329266893 (- 53)"

definition score_0_5 :: real where
  "score_0_5 = binary64 4503599627370496 (- 53)"

text \<open>
  \<open>np.argsort\<close> with its default kind returns the positions in ascending order of the
  scores and promises nothing about the order of equal scores. On the three scores of
  the catalog it returns \<open>[2, 0, 1]\<close>, and so does the world of the examples. On any
  other array that world answers with an ascending order too, the one an insertion sort
  gives; where scores are equal this need not be the order numpy leaves them in.
\<close>

definition ascending_argsort :: "real list \<Rightarrow> nat list" where
  "ascending_argsort xs = sort_key (\<lambda>i. xs ! i) [0..<length xs]"

definition catalog_argsort :: "real list \<Rightarrow> nat list" where
  "catalog_argsort xs =
     (if xs = [score_0_9, score_0_9, score_0_5] then [2, 0, 1] else ascending_argsort xs)"

definition csv_row :: "string \<Rightarrow> string \<Rightarrow> string \<Rightarrow> string" where
  "csv_row nama deskripsi c =
     (if c = ''Nama'' then nama else if c = ''DeskripsiObat'' then deskripsi else ''nan'')"

definition catalog_csv :: dataframe where
  "catalog_csv =
     \<lparr> columns = [''Nama'', ''DeskripsiObat''],
       rows = [csv_row ''A'' ''a'', csv_row ''B'' ''b'', csv_row ''C'' ''c''] \<rparr>"

text \<open>The encoder of the examples gives each text of the catalog a vector of its own,
  and one vector to every other text. The vectors only tell the records apart.\<close>

definition catalog_vector :: "string \<Rightarrow> vector" where
  "catalog_vector t =
     (if t = ''A - a'' then [1, 0, 0]
      else if t = ''B - b'' then [0, 1, 0]
      else if t = ''C - c'' then [0, 0, 1]
      else [0, 0, 0])"

definition catalog_encoder :: encoder where
  "catalog_encoder texts = Inr (map catalog_vector texts)"

text \<open>
  \<open>cosine_similarity\<close> in the world of the examples: the score of a record is the one
  the catalog gives it, whatever the query; \<open>Y = None\<close> stands for \<open>X\<close>; an array with
  no row is refused with a \<open>ValueError\<close>, as the input check of scikit-learn does.
\<close>

definition catalog_score :: "vector \<Rightarrow> real" where
  "catalog_score y =
     (if y = catalog_vector ''A - a'' then score_0_9
      else if y = catalog_vector ''B - b'' then score_0_9
      else if y = catalog_vector ''C - c'' then score_0_5
      else 0)"

definition catalog_cosine :: "vector list \<Rightarrow> vector list option \<Rightarrow> exn + real list list" where
  "catalog_cosine X Y =
     (let ys = (case Y of None \<Rightarrow> X | Some embeddings \<Rightarrow> embeddings)
      in if X = [] \<or> ys = []
         then Inl (ValueError ''Found array with 0 sample(s) while a minimum of 1 is required'')
         else Inr (map (\<lambda>x. map catalog_score ys) X))"

definition catalog_world :: world where
  "catalog_world =
     \<lparr> login = (\<lambda>token. None),
       SentenceTransformer = (\<lambda>name. Inr catalog_encoder),
       path_exists = (\<lambda>path. True),
       read_csv = (\<lambda>path. Inr catalog_csv),
       time_start = 100,
       time_end = 160,
       cosine_similarity = catalog_cosine,
       argsort = catalog_argsort \<rparr>"

text \<open>The same world with a file that lacks the column \<open>DeskripsiObat\<close>, and with an
  encoder that raises.\<close>

definition world_missing_column :: world where
  "world_missing_column =
     catalog_world\<lparr> read_csv := (\<lambda>path. Inr \<lparr> columns = [''Nama''],
                                              rows = [csv_row ''A'' ''a'', csv_row ''B'' ''b''] \<rparr>) \<rparr>"

definition world_encoder_fails :: world where
  "world_encoder_fails =
     catalog_world\<lparr> SentenceTransformer :=
                      (\<lambda>name. Inr (\<lambda>texts. Inl (RuntimeError ''out of memory''))) \<rparr>"

text \<open>The same world with a file that holds the header line and no record, and the
  object after a build in it.\<close>

definition world_header_only :: world where
  "world_header_only =
     catalog_world\<lparr> read_csv := (\<lambda>path. Inr \<lparr> columns = [''Nama'', ''DeskripsiObat''],
                                              rows = [] \<rparr>) \<rparr>"

definition header_only_predictor :: predictor where
  "header_only_predictor = snd (initialize_now default_config world_header_only new_predictor)"

text \<open>The object after a build in the world of the catalog, and the system in which
  a background thread has made that build and is about to return.\<close>

definition catalog_predictor :: predictor where
  "catalog_predictor = snd (initialize_now default_config catalog_world new_predictor)"

definition catalog_system :: system where
  "catalog_system =
     \<lparr> shared = catalog_predictor, lock_held = True, threads = [Running True []],
       initialization_thread = Some 0 \<rparr>"

text \<open>The same system once the thread has returned.\<close>

definition completed_system :: system where
  "completed_system =
     \<lparr> shared = catalog_predictor, lock_held = False, threads = [Finished True],
       initialization_thread = Some 0 \<rparr>"

text \<open>The system in the middle of that build: the thread has just stored the frame as
  read from the file (line 146), its thirteenth store.\<close>

definition loading_system :: system where
  "loading_system =
     \<lparr> shared = snd (initialize_sync default_config catalog_world new_predictor) ! 12,
       lock_held = True,
       threads = [Running True
                    (drop 13 (snd (initialize_sync default_config catalog_world new_predictor)))],
       initialization_thread = Some 0 \<rparr>"

text \<open>
  A world in which the model cannot be loaded, and the object after a build in it. In
  the system \<open>retry_system\<close> a first background build has failed in that world, a
  second has been started in the world of the catalog, and its thread, inside the lock,
  has made the first of its stores (line 54).
\<close>

definition world_model_fails :: world where
  "world_model_fails =
     catalog_world\<lparr> SentenceTransformer := (\<lambda>name. Inl ''model not found'') \<rparr>"

definition failed_predictor :: predictor where
  "failed_predictor = snd (initialize_now default_config world_model_fails new_predictor)"

definition retry_system :: system where
  "retry_system =
     \<lparr> shared = set_status InProgress failed_predictor,
       lock_held = True,
       threads = [Finished False,
                  Running True
                    (tl (snd (initialize_sync default_config catalog_world failed_predictor)))],
       initialization_thread = Some 1 \<rparr>"

text \<open>The frame of the catalog once \<open>_load_drug_database\<close> has added the column
  \<open>ObatLengkap\<close> and dropped the duplicates (there are none).\<close>

definition catalog_frame :: dataframe where
  "catalog_frame =
     \<lparr> columns = [''Nama'', ''DeskripsiObat'', ''ObatLengkap''],
       rows = [(csv_row ''A'' ''a'')(''ObatLengkap'' := ''A - a''),
               (csv_row ''B'' ''b'')(''ObatLengkap'' := ''B - b''),
               (csv_row ''C'' ''c'')(''ObatLengkap'' := ''C - c'')] \<rparr>"

section \<open>Reading a field after a store\<close>

text \<open>What each store leaves of the object, and how a trace grows: the facts by which
  a build is followed store by store.\<close>

lemmas setters = set_status_def set_error_def set_progress_def set_message_def set_start_time_def
  set_end_time_def set_model_def set_df_drugs_def set_drug_embeddings_def

lemma status_of_set [simp]:
  "status_of (set_status v s) = v"
  "status_of (set_error e s) = status_of s"
  "status_of (set_progress p s) = status_of s"
  "status_of (set_message m s) = status_of s"
  "status_of (set_start_time t s) = status_of s"
  "status_of (set_end_time t s) = status_of s"
  "status_of (set_model x s) = status_of s"
  "status_of (set_df_drugs d s) = status_of s"
  "status_of (set_drug_embeddings y s) = status_of s"
  by (simp_all add: setters status_of_def)

lemma initialization_status_set [simp]:
  "initialization_status (set_status v s) = (initialization_status s)\<lparr>status := v\<rparr>"
  "initialization_status (set_error e s) = (initialization_status s)\<lparr>error := e\<rparr>"
  "initialization_status (set_progress p s) = (initialization_status s)\<lparr>progress := p\<rparr>"
  "initialization_status (set_message m s) = (initialization_status s)\<lparr>message := m\<rparr>"
  "initialization_status (set_start_time t s) = (initialization_status s)\<lparr>start_time := t\<rparr>"
  "initialization_status (set_end_time t s) = (initialization_status s)\<lparr>end_time := t\<rparr>"
  "initialization_status (set_model x s) = initialization_status s"
  "initialization_status (set_df_drugs d s) = initialization_status s"
  "initialization_status (set_drug_embeddings y s) = initialization_status s"
  by (simp_all add: setters)

lemma model_set [simp]:
  "model (set_status v s) = model s"
  "model (set_error e s) = model s"
  "model (set_progress p s) = model s"
  "model (set_message m s) = model s"
  "model (set_start_time t s) = model s"
  "model (set_end_time t s) = model s"
  "model (set_model x s) = x"
  "model (set_df_drugs d s) = model s"
  "model (set_drug_embeddings y s) = model s"
  by (simp_all add: setters)

lemma df_drugs_set [simp]:
  "df_drugs (set_status v s) = df_drugs s"
  "df_drugs (set_error e s) = df_drugs s"
  "df_drugs (set_progress p s) = df_drugs s"
  "df_drugs (set_message m s) = df_drugs s"
  "df_drugs (set_start_time t s) = df_drugs s"
  "df_drugs (set_end_time t s) = df_drugs s"
  "df_drugs (set_model x s) = df_drugs s"
  "df_drugs (set_df_drugs d s) = d"
  "df_drugs (set_drug_embeddings y s) = df_drugs s"
  by (simp_all add: setters)

lemma drug_embeddings_set [simp]:
  "drug_embeddings (set_status v s) = drug_embeddings s"
  "drug_embeddings (set_error e s) = drug_embeddings s"
  "drug_embeddings (set_progress p s) = drug_embeddings s"
  "drug_embeddings (set_message m s) = drug_embeddings s"
  "drug_embeddings (set_start_time t s) = drug_embeddings s"
  "drug_embeddings (set_end_time t s) = drug_embeddings s"
  "drug_embeddings (set_model x s) = drug_embeddings s"
  "drug_embeddings (set_df_drugs d s) = drug_embeddings s"
  "drug_embeddings (set_drug_embeddings y s) = y"
  by (simp_all add: setters)

lemma stores_simps [simp]:
  "stores [] tr = tr"
  "stores (f # fs) tr = stores fs (store f tr)"
  by (simp_all add: stores_def)

lemma store_simps [simp]:
  "hd (store f tr) = f (hd tr)"
  "store f tr \<noteq> []"
  "tr \<noteq> [] \<Longrightarrow> butlast (store f tr) = f (hd tr) # butlast tr"
  "length (store f tr) = Suc (length tr)"
  by (simp_all add: store_def)

lemmas build_defs = initialize_sync_def initialize_sync_try_def login_step_def
  load_drug_database_def load_drug_database_try_def generate_embeddings_def
  generate_embeddings_try_def Let_def

lemma world_fields [simp]:
  "login catalog_world = (\<lambda>token. None)"
  "SentenceTransformer catalog_world = (\<lambda>name. Inr catalog_encoder)"
  "path_exists catalog_world = (\<lambda>path. True)"
  "read_csv catalog_world = (\<lambda>path. Inr catalog_csv)"
  "time_start catalog_world = 100"
  "time_end catalog_world = 160"
  "cosine_similarity catalog_world = catalog_cosine"
  "argsort catalog_world = catalog_argsort"
  by (simp_all add: catalog_world_def)

lemma status_new [simp]: "status_of new_predictor = NotStarted"
  "initialization_status new_predictor = \<lparr> status = NotStarted, error = None, progress = 0, message = [],
           start_time = None, end_time = None \<rparr>"
  "model new_predictor = None" "df_drugs new_predictor = None" "drug_embeddings new_predictor = None"
  by (simp_all add: new_predictor_def status_of_def)

lemma config_fields [simp]:
  "HUGGINGFACE_TOKEN default_config = None"
  "MODEL_NAME default_config = ''your-username/your-model-name''"
  "CSV_PATH default_config = ''data/df_obat.csv''"
  "MAX_TOP_K default_config = 20" "DEFAULT_TOP_K default_config = 5"
  "STARTUP_TIMEOUT default_config = 600"
  by (simp_all add: default_config_def)


lemma columns_simps [simp]:
  "columns (drop_duplicates c df) = columns df"
  "c \<in> set (columns (set_column c vals df))"
  "columns catalog_csv = [''Nama'', ''DeskripsiObat'']"
  by (simp_all add: drop_duplicates_def set_column_def catalog_csv_def)

lemma catalog_encoder_Inr [simp]: "catalog_encoder texts = Inr (map catalog_vector texts)"
  by (simp add: catalog_encoder_def)

lemma initialize_now_simps:
  "status_of self = Completed \<Longrightarrow> initialize_now cfg w self = (True, self)"
  "initialize_sync cfg w self = (b, rev (butlast (store f tr))) \<Longrightarrow> tr \<noteq> []
     \<Longrightarrow> initialize_now cfg w self = (b, f (hd tr))"
  by (simp_all add: initialize_now_def initialize_sync_def)

lemma world_missing_fields [simp]:
  "login world_missing_column = (\<lambda>token. None)"
  "SentenceTransformer world_missing_column = (\<lambda>name. Inr catalog_encoder)"
  "path_exists world_missing_column = (\<lambda>path. True)"
  "read_csv world_missing_column =
     (\<lambda>path. Inr \<lparr> columns = [''Nama''], rows = [csv_row ''A'' ''a'', csv_row ''B'' ''b''] \<rparr>)"
  "time_start world_missing_column = 100"
  "time_end world_missing_column = 160"
  by (simp_all add: world_missing_column_def)

lemma world_encoder_fails_fields [simp]:
  "login world_encoder_fails = (\<lambda>token. None)"
  "SentenceTransformer world_encoder_fails = (\<lambda>name. Inr (\<lambda>texts. Inl (RuntimeError ''out of memory'')))"
  "path_exists world_encoder_fails = (\<lambda>path. True)"
  "read_csv world_encoder_fails = (\<lambda>path. Inr catalog_csv)"
  "time_start world_encoder_fails = 100"
  "time_end world_encoder_fails = 160"
  by (simp_all add: world_encoder_fails_def)

lemma completed_returns:
  "status_of self = Completed \<Longrightarrow> initialize_sync cfg w self = (True, [])"
  by (simp add: initialize_sync_def)

lemma completed_calls:
  "status_of self = Completed \<Longrightarrow> initialize_calls cfg ws self = (replicate (length ws) True, self)"
  by (induction ws) (simp_all add: initialize_now_def completed_returns)

lemma catalog_status [simp]: "status_of catalog_predictor = Completed"
  by (simp add: catalog_predictor_def initialize_now_def build_defs required_columns_def)

lemma catalog_fields [simp]:
  "model catalog_predictor = Some catalog_encoder"
  "df_drugs catalog_predictor = Some (drop_duplicates ''ObatLengkap'' (set_column ''ObatLengkap''
       (map (\<lambda>r. r ''Nama'' @ '' - '' @ r ''DeskripsiObat'') (rows catalog_csv)) catalog_csv))"
  "drug_embeddings catalog_predictor = Some (map catalog_vector (map (\<lambda>r. r ''ObatLengkap'')
     (rows (drop_duplicates ''ObatLengkap'' (set_column ''ObatLengkap''
       (map (\<lambda>r. r ''Nama'' @ '' - '' @ r ''DeskripsiObat'') (rows catalog_csv)) catalog_csv)))))"
  by (simp_all add: catalog_predictor_def initialize_now_def build_defs required_columns_def)

section \<open>The stores of a build\<close>

text \<open>Until its last five stores a build never writes the status \<open>completed\<close>; the
  five leave the encoder, the frame and the embeddings as the build has made them.\<close>

lemma encoder_rowsD:
  "encoder_rows w \<Longrightarrow> SentenceTransformer w name = Inr enc \<Longrightarrow> enc texts = Inr e
   \<Longrightarrow> length e = length texts"
  unfolding encoder_rows_def by blast

lemma last_store [simp]: "tr \<noteq> [] \<Longrightarrow> last (store f tr) = last tr"
  by (simp add: store_def)

lemma building_store [simp]:
  "tr \<noteq> [] \<Longrightarrow> building (store f tr) \<longleftrightarrow> status_of (f (hd tr)) \<noteq> Completed \<and> building tr"
  by (simp add: building_def store_def)

lemma building_hd: "building tr \<Longrightarrow> status_of (hd tr) \<noteq> Completed"
  by (cases tr) (simp_all add: building_def)

lemma building_nonempty: "building tr \<Longrightarrow> tr \<noteq> []"
  by (simp add: building_def)

lemma login_step_trace:
  assumes "building tr"
  shows "building (snd (login_step cfg w tr))"
    and "last (snd (login_step cfg w tr)) = last tr"
  using assms building_hd[OF assms] building_nonempty[OF assms]
  by (simp_all add: login_step_def split: option.split)

lemma load_drug_database_trace:
  assumes "building tr"
  shows "building (snd (load_drug_database cfg w tr))"
    and "last (snd (load_drug_database cfg w tr)) = last tr"
    and "model (hd (snd (load_drug_database cfg w tr))) = model (hd tr)"
    and "\<not> fst (load_drug_database cfg w tr)
         \<longrightarrow> status_of (hd (snd (load_drug_database cfg w tr))) = Failed"
  using assms building_hd[OF assms] building_nonempty[OF assms]
  by (simp_all add: load_drug_database_def load_drug_database_try_def Let_def
        split: option.split sum.split)

lemma generate_embeddings_trace:
  assumes "building tr"
  shows "building (snd (generate_embeddings tr))"
    and "last (snd (generate_embeddings tr)) = last tr"
    and "\<not> fst (generate_embeddings tr) \<longrightarrow> status_of (hd (snd (generate_embeddings tr))) = Failed"
    and "fst (generate_embeddings tr) \<longrightarrow>
           (\<exists>df m e. df_drugs (hd (snd (generate_embeddings tr))) = Some df
             \<and> drug_embeddings (hd (snd (generate_embeddings tr))) = Some e
             \<and> model (hd tr) = Some m
             \<and> m (map (\<lambda>r. r ''ObatLengkap'') (rows df)) = Inr e)"
  using assms building_hd[OF assms] building_nonempty[OF assms]
  by (simp_all add: generate_embeddings_def generate_embeddings_try_def Let_def
        split: option.split sum.split)

lemma not_completed_frozen:
  "list_all (\<lambda>s. status_of s \<noteq> Completed) xs \<Longrightarrow> successively (\<lambda>a b. frozen b a) xs"
  by (induction xs rule: induct_list012) (simp_all add: frozen_def)

lemma not_completed_consistent:
  "list_all (\<lambda>s. status_of s \<noteq> Completed) xs
   \<Longrightarrow> list_all (\<lambda>s. status_of s = Completed \<longrightarrow> index_consistent s) xs"
  by (induction xs) simp_all

lemma rev_trace: "tr \<noteq> [] \<Longrightarrow> last tr = self \<Longrightarrow> self # rev (butlast tr) = rev tr"
  by (metis append_butlast_last_id rev.simps(2) rev_swap)

lemma index_consistent_set [simp]:
  "index_consistent (set_status v s) = index_consistent s"
  "index_consistent (set_error e s) = index_consistent s"
  "index_consistent (set_progress p s) = index_consistent s"
  "index_consistent (set_message m s) = index_consistent s"
  "index_consistent (set_start_time t s) = index_consistent s"
  "index_consistent (set_end_time t s) = index_consistent s"
  "index_consistent (set_model x s) = index_consistent s"
  by (simp_all add: index_consistent_def)

lemma well_written_building:
  assumes "building tr" and "last tr = self" and "status_of (hd tr) \<noteq> InProgress"
  shows "well_written rows_ok self (rev (butlast tr))"
proof -
  have ne: "tr \<noteq> []" and nc: "list_all (\<lambda>s. status_of s \<noteq> Completed) tr"
    using assms(1) by (simp_all add: building_def)
  have eq: "self # rev (butlast tr) = rev tr"
    using ne assms(2) by (rule rev_trace)
  have "list_all (\<lambda>s. status_of s \<noteq> Completed) (butlast tr)"
    using nc by (metis (mono_tags, lifting) in_set_butlastD list_all_iff)
  then have "list_all (\<lambda>s. status_of s = Completed \<longrightarrow> index_consistent s) (rev (butlast tr))"
    by (simp add: not_completed_consistent)
  moreover have "successively frozen (rev tr)"
    using nc by (simp add: not_completed_frozen)
  moreover have "last (rev tr) = hd tr"
    using ne by (simp add: last_rev)
  ultimately show ?thesis
    using assms(3) by (simp add: well_written_def eq)
qed

lemma well_written_completed:
  assumes "building tr" and "last tr = self" and "rows_ok \<longrightarrow> index_consistent (hd tr)"
  shows "well_written rows_ok self
           (rev (butlast (stores [set_status Completed, set_progress p, set_message m,
                                  set_error e, set_end_time t] tr)))"
proof -
  define five where "five = [set_status Completed (hd tr),
                    set_progress p (set_status Completed (hd tr)),
                    set_message m (set_progress p (set_status Completed (hd tr))),
                    set_error e (set_message m (set_progress p (set_status Completed (hd tr)))),
                    set_end_time t (set_error e (set_message m (set_progress p (set_status Completed (hd tr)))))]"
  define ws where "ws = rev (butlast (stores [set_status Completed, set_progress p, set_message m,
                                  set_error e, set_end_time t] tr))"
  have ne: "tr \<noteq> []" and nc: "list_all (\<lambda>s. status_of s \<noteq> Completed) tr"
    using assms(1) by (simp_all add: building_def)
  have eq: "self # rev (butlast tr) = rev tr"
    using ne assms(2) by (rule rev_trace)
  have ws: "ws = rev (butlast tr) @ five"
    using ne by (simp add: ws_def five_def)
  have sws: "self # ws = rev tr @ five"
    using eq ws by simp
  have nb: "list_all (\<lambda>s. status_of s \<noteq> Completed) (butlast tr)"
    using nc by (metis (mono_tags, lifting) in_set_butlastD list_all_iff)
  have h: "status_of (hd tr) \<noteq> Completed"
    using assms(1) by (rule building_hd)
  have l: "last (rev tr) = hd tr"
    using ne by (simp add: last_rev)
  have "successively frozen (rev tr)"
    using nc by (simp add: not_completed_frozen)
  moreover have "successively frozen five"
    by (simp add: five_def frozen_def)
  moreover have "frozen (last (rev tr)) (hd five)"
    using h by (simp add: l frozen_def)
  ultimately have 1: "successively frozen (self # ws)"
    unfolding sws by (simp add: successively_append_iff)
  have 2: "status_of (last (self # ws)) \<noteq> InProgress"
    unfolding sws by (simp add: five_def)
  have "list_all (\<lambda>s. status_of s = Completed \<longrightarrow> index_consistent s) (rev (butlast tr))"
    using nb by (simp add: not_completed_consistent)
  moreover have "rows_ok \<longrightarrow> list_all (\<lambda>s. status_of s = Completed \<longrightarrow> index_consistent s) five"
    using assms(3) by (simp add: five_def)
  ultimately have 3: "rows_ok \<longrightarrow> list_all (\<lambda>s. status_of s = Completed \<longrightarrow> index_consistent s) ws"
    unfolding ws by simp
  show ?thesis
    using 1 2 3 unfolding well_written_def ws_def by blast
qed

lemma well_written_initialize_sync:
  assumes "status_of self \<noteq> InProgress"
  shows "well_written (encoder_rows w) self (snd (initialize_sync cfg w self))"
proof (cases "status_of self = Completed \<or> status_of self = InProgress")
  case True
  then have "snd (initialize_sync cfg w self) = []"
    by (auto simp add: initialize_sync_def)
  then show ?thesis
    using assms by (simp add: well_written_def)
next
  case False
  define tr0 where "tr0 = stores [set_status InProgress, set_progress 0,
      set_message ''Starting initialization...'', set_start_time (Some (time_start w)),
      set_error None] [self]"
  have "building [self]"
    using False by (simp add: building_def)
  then have b0: "building tr0" and l0: "last tr0 = self"
    by (simp_all add: tr0_def)
  obtain e1 tr1 where s1: "login_step cfg w tr0 = (e1, tr1)"
    by (cases "login_step cfg w tr0")
  have b1: "building tr1" and l1: "last tr1 = self"
    using login_step_trace[OF b0, of cfg w] s1 l0 by simp_all
  show ?thesis
  proof (cases e1)
    case (Some e)
    have "well_written (encoder_rows w) self (rev (butlast (stores [set_status Failed,
            set_error (Some (''Initialization failed: '' @ str e)),
            set_message (''Initialization failed: '' @ str e),
            set_end_time (Some (time_end w))] tr1)))"
      using b1 l1 building_nonempty[OF b1] building_hd[OF b1]
      by (intro well_written_building) simp_all
    then show ?thesis
      using False s1 Some
      by (simp add: initialize_sync_def initialize_sync_try_def Let_def tr0_def[symmetric] del: stores_simps)
  next
    case None
    define tr2 where "tr2 = stores [set_progress 20,
                             set_message ''Loading model from Hugging Face...''] tr1"
    have b2: "building tr2" and l2: "last tr2 = self"
      using b1 l1 building_nonempty[OF b1] building_hd[OF b1] by (simp_all add: tr2_def)
    show ?thesis
    proof (cases "SentenceTransformer w (MODEL_NAME cfg)")
      case (Inl msg)
      have "well_written (encoder_rows w) self (rev (butlast (stores [set_status Failed,
            set_error (Some (''Initialization failed: '' @ str (LibraryError msg))),
            set_message (''Initialization failed: '' @ str (LibraryError msg)),
            set_end_time (Some (time_end w))] tr2)))"
        using b2 l2 building_nonempty[OF b2] building_hd[OF b2]
        by (intro well_written_building) simp_all
      then show ?thesis
        using False s1 None Inl
        by (simp add: initialize_sync_def initialize_sync_try_def Let_def
              tr0_def[symmetric] tr2_def[symmetric] del: stores_simps)
    next
      case (Inr enc)
      define tr3 where "tr3 = stores [set_model (Some enc), set_progress 50,
                                      set_message ''Model loaded successfully'',
                                      set_progress 60,
                                      set_message ''Loading drug database...''] tr2"
      have b3: "building tr3" and l3: "last tr3 = self" and m3: "model (hd tr3) = Some enc"
        using b2 l2 building_nonempty[OF b2] building_hd[OF b2] by (simp_all add: tr3_def)
      obtain ok4 tr4 where s4: "load_drug_database cfg w tr3 = (ok4, tr4)"
        by (cases "load_drug_database cfg w tr3")
      have b4: "building tr4" and l4: "last tr4 = self" and m4: "model (hd tr4) = Some enc"
        and f4: "\<not> ok4 \<longrightarrow> status_of (hd tr4) = Failed"
        using load_drug_database_trace[OF b3, of cfg w] s4 l3 m3 by simp_all
      show ?thesis
      proof (cases ok4)
        case False4: False
        have "well_written (encoder_rows w) self (rev (butlast tr4))"
          using b4 l4 f4 False4 by (intro well_written_building) simp_all
        then show ?thesis
          using False s1 None Inr s4 False4
          by (simp add: initialize_sync_def initialize_sync_try_def Let_def
                tr0_def[symmetric] tr2_def[symmetric] tr3_def[symmetric] del: stores_simps)
      next
        case True4: True
        define tr5 where "tr5 = stores [set_progress 80,
                                        set_message ''Generating embeddings...''] tr4"
        have b5: "building tr5" and l5: "last tr5 = self" and m5: "model (hd tr5) = Some enc"
          using b4 l4 m4 building_nonempty[OF b4] building_hd[OF b4] by (simp_all add: tr5_def)
        obtain ok6 tr6 where s6: "generate_embeddings tr5 = (ok6, tr6)"
          by (cases "generate_embeddings tr5")
        have b6: "building tr6" and l6: "last tr6 = self"
          and f6: "\<not> ok6 \<longrightarrow> status_of (hd tr6) = Failed"
          and g6: "ok6 \<longrightarrow> (\<exists>df m e. df_drugs (hd tr6) = Some df
                     \<and> drug_embeddings (hd tr6) = Some e \<and> model (hd tr5) = Some m
                     \<and> m (map (\<lambda>r. r ''ObatLengkap'') (rows df)) = Inr e)"
          using generate_embeddings_trace[OF b5] s6 l5 by simp_all
        show ?thesis
        proof (cases ok6)
          case False6: False
          have "well_written (encoder_rows w) self (rev (butlast tr6))"
            using b6 l6 f6 False6 by (intro well_written_building) simp_all
          then show ?thesis
            using False s1 None Inr s4 True4 s6 False6
            by (simp add: initialize_sync_def initialize_sync_try_def Let_def
                  tr0_def[symmetric] tr2_def[symmetric] tr3_def[symmetric] tr5_def[symmetric] del: stores_simps)
        next
          case True6: True
          have "encoder_rows w \<longrightarrow> index_consistent (hd tr6)"
            using g6 True6 m5 Inr
            by (auto simp add: index_consistent_def dest: encoder_rowsD)
          then have "well_written (encoder_rows w) self
             (rev (butlast (stores [set_status Completed, set_progress 100,
                 set_message ''Initialization completed successfully'', set_error None,
                 set_end_time (Some (time_end w))] tr6)))"
            using b6 l6 by (intro well_written_completed) simp_all
          then show ?thesis
            using False s1 None Inr s4 True4 s6 True6
            by (simp add: initialize_sync_def initialize_sync_try_def Let_def
                  tr0_def[symmetric] tr2_def[symmetric] tr3_def[symmetric] tr5_def[symmetric] del: stores_simps)
        qed
      qed
    qed
  qed
qed

section \<open>The system: one build at a time\<close>

lemma list_ex_running: "list_ex is_running ts \<longleftrightarrow> (\<exists>i<length ts. is_running (ts ! i))"
  unfolding list_ex_iff by (metis in_set_conv_nth)

lemma is_running_iff: "is_running t \<longleftrightarrow> (\<exists>r ws. t = Running r ws)"
  by (cases t) simp_all

lemma exclusive_new [simp]: "exclusive new_system"
  by (simp add: exclusive_def new_system_def)

lemma exclusive_initialize: "exclusive sys \<Longrightarrow> exclusive (initialize background sys)"
  by (auto simp add: exclusive_def initialize_def nth_append list_ex_running less_Suc_eq
      split: if_splits)

lemma exclusive_step:
  assumes "exclusive sys" and "step cfg W sys sys'"
  shows "exclusive sys'"
  using assms(2)
proof cases
  case (call background)
  then show ?thesis using assms(1) by (simp add: exclusive_initialize)
next
  case (acquire i w r writes)
  have none: "\<And>j. j < length (threads sys) \<Longrightarrow> \<not> is_running (threads sys ! j)"
    using assms(1) acquire(4) by (auto simp add: exclusive_def list_ex_running)
  show ?thesis
    unfolding acquire(1) exclusive_def list_ex_running
    using none acquire(2) by (auto simp add: nth_list_update)
next
  case (store_next i r s rest)
  have only: "\<And>j. j < length (threads sys) \<Longrightarrow> is_running (threads sys ! j) \<Longrightarrow> j = i"
    using assms(1) store_next(2,3) by (auto simp add: exclusive_def)
  have held: "lock_held sys"
    using assms(1) store_next(2,3) by (auto simp add: exclusive_def list_ex_running)
  show ?thesis
    unfolding store_next(1) exclusive_def list_ex_running
    using only held store_next(2) by (auto simp add: nth_list_update split: if_splits)
next
  case (release i r)
  have only: "\<And>j. j < length (threads sys) \<Longrightarrow> is_running (threads sys ! j) \<Longrightarrow> j = i"
    using assms(1) release(2,3) by (auto simp add: exclusive_def)
  show ?thesis
    unfolding release(1) exclusive_def list_ex_running
    using only release(2) by (auto simp add: nth_list_update split: if_splits)
qed

lemma reachable_exclusive: "reachable cfg W sys \<Longrightarrow> exclusive sys"
  by (induction rule: reachable.induct) (simp_all add: exclusive_step)

lemma well_written_weaken:
  "well_written a s ws \<Longrightarrow> (b \<longrightarrow> a) \<Longrightarrow> well_written b s ws"
  by (auto simp add: well_written_def)

lemma well_written_tail:
  "well_written ok s (s' # ws) \<Longrightarrow> well_written ok s' ws"
  by (simp add: well_written_def)

lemma well_written_head:
  "well_written ok s (s' # ws) \<Longrightarrow> ok \<Longrightarrow> status_of s' = Completed \<Longrightarrow> index_consistent s'"
  by (simp add: well_written_def)

lemma safe_new [simp]: "safe ok new_system"
  by (simp add: safe_def new_system_def)

lemma safe_step:
  assumes "safe ok sys" and "exclusive sys" and "step cfg W sys sys'"
    and "ok \<longrightarrow> (\<forall>w\<in>W. encoder_rows w)"
  shows "safe ok sys'"
  using assms(3)
proof cases
  case (call background)
  then show ?thesis
    using assms(1)
    by (auto simp add: safe_def initialize_def nth_append less_Suc_eq split: if_splits)
next
  case (acquire i w r writes)
  have none: "\<And>j. j < length (threads sys) \<Longrightarrow> \<not> is_running (threads sys ! j)"
    using assms(2) acquire(4) by (auto simp add: exclusive_def list_ex_running)
  have free: "status_of (shared sys) \<noteq> InProgress"
    using assms(1) acquire(4) by (simp add: safe_def)
  have "well_written (encoder_rows w) (shared sys) (snd (initialize_sync cfg w (shared sys)))"
    using free by (rule well_written_initialize_sync)
  then have ww: "well_written ok (shared sys) writes"
    using acquire(5,6) assms(4) by (auto intro: well_written_weaken)
  have "\<forall>j r' ws. j < length (threads sys)
           \<and> (threads sys)[i := Running r writes] ! j = Running r' ws
          \<longrightarrow> well_written ok (shared sys) ws"
  proof (intro allI impI)
    fix j r' ws
    assume a: "j < length (threads sys) \<and> (threads sys)[i := Running r writes] ! j = Running r' ws"
    show "well_written ok (shared sys) ws"
    proof (cases "j = i")
      case True
      then show ?thesis using a ww acquire(2) by simp
    next
      case False
      then show ?thesis using a none[of j] by simp
    qed
  qed
  then show ?thesis
    using assms(1) unfolding acquire(1) safe_def by simp
next
  case (store_next i r s rest)
  have only: "\<And>j. j < length (threads sys) \<Longrightarrow> is_running (threads sys ! j) \<Longrightarrow> j = i"
    using assms(2) store_next(2,3) by (auto simp add: exclusive_def)
  have held: "lock_held sys"
    using assms(2) store_next(2,3) by (auto simp add: exclusive_def list_ex_running)
  have ww: "well_written ok (shared sys) (s # rest)"
    using assms(1) store_next(2,3) by (auto simp add: safe_def)
  have "\<forall>j r' ws. j < length (threads sys)
           \<and> (threads sys)[i := Running r rest] ! j = Running r' ws
          \<longrightarrow> well_written ok s ws"
  proof (intro allI impI)
    fix j r' ws
    assume a: "j < length (threads sys) \<and> (threads sys)[i := Running r rest] ! j = Running r' ws"
    show "well_written ok s ws"
    proof (cases "j = i")
      case True
      then show ?thesis using a well_written_tail[OF ww] store_next(2) by simp
    next
      case False
      then show ?thesis using a only[of j] by simp
    qed
  qed
  then show ?thesis
    using held well_written_head[OF ww] unfolding store_next(1) safe_def by simp
next
  case (release i r)
  have ww: "well_written ok (shared sys) []"
    using assms(1) release(2,3) by (auto simp add: safe_def)
  have "\<forall>j r' ws. j < length (threads sys)
           \<and> (threads sys)[i := Finished r] ! j = Running r' ws
          \<longrightarrow> well_written ok (shared sys) ws"
  proof (intro allI impI)
    fix j r' ws
    assume a: "j < length (threads sys) \<and> (threads sys)[i := Finished r] ! j = Running r' ws"
    show "well_written ok (shared sys) ws"
    proof (cases "j = i")
      case True
      then show ?thesis using a release(2) by simp
    next
      case False
      then show ?thesis using a assms(1) by (simp add: safe_def)
    qed
  qed
  then show ?thesis
    using assms(1) ww unfolding release(1) safe_def by (simp add: well_written_def)
qed

lemma reachable_safe:
  "reachable cfg W sys \<Longrightarrow> ok \<longrightarrow> (\<forall>w\<in>W. encoder_rows w) \<Longrightarrow> safe ok sys"
  by (induction rule: reachable.induct) (auto intro: safe_step reachable_exclusive)

lemma reachable_stores:
  "reachable cfg W sys \<Longrightarrow> i < length (threads sys) \<Longrightarrow> threads sys ! i = Running r (ws @ rest)
   \<Longrightarrow> reachable cfg W (sys\<lparr> shared := last (shared sys # ws),
                              threads := (threads sys)[i := Running r rest] \<rparr>)"
proof (induction ws arbitrary: sys)
  case Nil
  then show ?case by (simp add: list_update_same_conv[THEN iffD2])
next
  case (Cons s ws)
  let ?sys1 = "sys\<lparr> shared := s, threads := (threads sys)[i := Running r (ws @ rest)] \<rparr>"
  have "step cfg W sys ?sys1"
    using Cons.prems(2,3) by (intro step.store_next) simp_all
  then have "reachable cfg W ?sys1"
    by (rule reachable.further[OF Cons.prems(1)])
  from Cons.IH[OF this] Cons.prems(2) show ?case by simp
qed

section \<open>The systems of the examples are reachable\<close>

lemma catalog_build:
  "fst (initialize_sync default_config catalog_world new_predictor) = True"
  "length (snd (initialize_sync default_config catalog_world new_predictor)) = 23"
  by (simp_all add: build_defs required_columns_def)

lemma encoder_rows_catalog: "encoder_rows catalog_world"
  by (auto simp add: encoder_rows_def)

lemma catalog_predictor_last:
  "catalog_predictor = last (new_predictor # snd (initialize_sync default_config catalog_world new_predictor))"
  by (simp add: catalog_predictor_def initialize_now_def split: prod.split)

lemma reachable_acquired:
  "reachable default_config {catalog_world}
     \<lparr> shared = new_predictor, lock_held = True,
       threads = [Running True (snd (initialize_sync default_config catalog_world new_predictor))],
       initialization_thread = Some 0 \<rparr>"
proof -
  let ?sys1 = "\<lparr> shared = new_predictor, lock_held = False, threads = [Waiting],
                  initialization_thread = Some 0 \<rparr>"
  have "step default_config {catalog_world} new_system (initialize True new_system)"
    by (rule step.call)
  then have 1: "reachable default_config {catalog_world} ?sys1"
    using reachable.further[OF reachable.start]
    by (simp add: initialize_def new_system_def thread_alive_def)
  have "step default_config {catalog_world} ?sys1
          (?sys1\<lparr> lock_held := True,
                  threads := (threads ?sys1)[0 := Running True
                    (snd (initialize_sync default_config catalog_world new_predictor))] \<rparr>)"
    using catalog_build(1)
    by (intro step.acquire[where w = catalog_world]) (simp_all add: prod_eq_iff)
  from reachable.further[OF 1 this] show ?thesis by simp
qed

lemma reachable_catalog_system: "reachable default_config {catalog_world} catalog_system"
  using reachable_stores[OF reachable_acquired, of 0 True
          "snd (initialize_sync default_config catalog_world new_predictor)" "[]"]
  by (simp add: catalog_system_def catalog_predictor_last)

lemma reachable_completed_system: "reachable default_config {catalog_world} completed_system"
proof -
  have "step default_config {catalog_world} catalog_system
          (catalog_system\<lparr> lock_held := False,
                           threads := (threads catalog_system)[0 := Finished True] \<rparr>)"
    by (intro step.release) (simp_all add: catalog_system_def)
  from reachable.further[OF reachable_catalog_system this] show ?thesis
    by (simp add: catalog_system_def completed_system_def)
qed

lemma reachable_loading_system: "reachable default_config {catalog_world} loading_system"
proof -
  let ?ws = "snd (initialize_sync default_config catalog_world new_predictor)"
  have "reachable default_config {catalog_world}
     (\<lparr> shared = new_predictor, lock_held = True,
       threads = [Running True ?ws],
       initialization_thread = Some 0 \<rparr>\<lparr> shared := last (new_predictor # take 13 ?ws),
          threads := [Running True ?ws][0 := Running True (drop 13 ?ws)] \<rparr>)"
    using reachable_stores[OF reachable_acquired, of 0 True "take 13 ?ws" "drop 13 ?ws"]
    by simp
  moreover have "last (new_predictor # take 13 ?ws) = ?ws ! 12"
    using catalog_build(2) by (auto simp add: last_conv_nth)
  ultimately show ?thesis by (simp add: loading_system_def)
qed

section \<open>The published index\<close>

lemma predict_not_ready:
  "status_of self \<noteq> Completed
   \<Longrightarrow> predict w self keluhan anamnesa top_k = Inl (RuntimeError ''Model not initialized'')"
  by (simp add: predict_def)

text \<open>
  C4: whenever the status is \<open>completed\<close> the index is consistent: the frame has as
  many records as the embedding array has rows. It holds in every state of the object
  that a reader can find, between any two stores of any build, provided every encoder
  returns one row per text. So a \<open>predict\<close> that gets past its readiness check finds a
  consistent index, and from then on no step of the system changes the encoder, the
  frame or the embeddings.
\<close>

theorem published_index_consistent:
  assumes "\<forall>w\<in>W. encoder_rows w" and "reachable cfg W sys"
  shows "(status_of (shared sys) = Completed \<longrightarrow> index_consistent (shared sys))
         \<and> (predict w (shared sys) keluhan anamnesa top_k \<noteq> Inl (RuntimeError ''Model not initialized'')
              \<longrightarrow> index_consistent (shared sys))
         \<and> (status_of (shared sys) = Completed \<and> step cfg W sys sys' \<longrightarrow>
               status_of (shared sys') = Completed
               \<and> model (shared sys') = model (shared sys)
               \<and> df_drugs (shared sys') = df_drugs (shared sys)
               \<and> drug_embeddings (shared sys') = drug_embeddings (shared sys))"
proof -
  have s: "safe True sys"
    using assms by (intro reachable_safe) simp_all
  have 1: "status_of (shared sys) = Completed \<longrightarrow> index_consistent (shared sys)"
    using s by (simp add: safe_def)
  have 2: "predict w (shared sys) keluhan anamnesa top_k \<noteq> Inl (RuntimeError ''Model not initialized'')
              \<longrightarrow> index_consistent (shared sys)"
    using 1 predict_not_ready[of "shared sys" w keluhan anamnesa top_k] by blast
  have 3: "status_of (shared sys') = Completed
               \<and> model (shared sys') = model (shared sys)
               \<and> df_drugs (shared sys') = df_drugs (shared sys)
               \<and> drug_embeddings (shared sys') = drug_embeddings (shared sys)"
    if c: "status_of (shared sys) = Completed" and st: "step cfg W sys sys'"
    using st
  proof cases
    case (call background)
    then show ?thesis using c by (simp add: initialize_def)
  next
    case (acquire i w r writes)
    then show ?thesis using c by simp
  next
    case (store_next i r s rest)
    have "well_written True (shared sys) (s # rest)"
      using s store_next(2,3) by (auto simp add: safe_def)
    then have "frozen (shared sys) s"
      by (simp add: well_written_def)
    then show ?thesis
      using c store_next(1) by (simp add: frozen_def)
  next
    case (release i r)
    then show ?thesis using c by simp
  qed
  show ?thesis using 1 2 3 by blast
qed

theorem published_index_consistent_witness:
  "encoder_rows catalog_world
   \<and> reachable default_config {catalog_world} catalog_system
   \<and> status_of (shared catalog_system) = Completed
   \<and> index_consistent (shared catalog_system)
   \<and> step default_config {catalog_world} catalog_system completed_system
   \<and> df_drugs (shared completed_system) = df_drugs (shared catalog_system)
   \<and> drug_embeddings (shared completed_system) = drug_embeddings (shared catalog_system)"
proof -
  have st: "step default_config {catalog_world} catalog_system completed_system"
    using step.release[of 0 catalog_system True default_config "{catalog_world}"]
    by (simp add: catalog_system_def completed_system_def)
  show ?thesis
    using published_index_consistent[of "{catalog_world}" default_config catalog_system
            catalog_world "''fever''" "[]" 2 completed_system]
      encoder_rows_catalog reachable_catalog_system st
    by (simp add: catalog_system_def)
qed

section \<open>Initialization after completion\<close>

lemma settled_step:
  assumes "settled sys" and "step cfg W sys sys'"
  shows "settled sys' \<and> shared sys' = shared sys"
  using assms(2)
proof cases
  case (call background)
  then show ?thesis using assms(1) by (simp add: settled_def initialize_def)
next
  case (acquire i w r writes)
  then have "writes = []"
    using assms(1) by (simp add: settled_def initialize_sync_def)
  then show ?thesis
    using assms(1) acquire(1,2)
    by (auto simp add: settled_def list_all_iff dest!: set_update_subset_insert[THEN subsetD])
next
  case (store_next i r s rest)
  then have "pending (threads sys ! i) = []"
    using assms(1) nth_mem[of i "threads sys"] by (auto simp add: settled_def list_all_iff)
  then show ?thesis using store_next(3) by simp
next
  case (release i r)
  then show ?thesis
    using assms(1)
    by (auto simp add: settled_def list_all_iff dest!: set_update_subset_insert[THEN subsetD])
qed

lemma settled_steps:
  "(step cfg W)\<^sup>*\<^sup>* sys sys' \<Longrightarrow> settled sys \<Longrightarrow> settled sys' \<and> shared sys' = shared sys"
  by (induction rule: rtranclp_induct) (auto dest: settled_step)

text \<open>
  C6: once the status is \<open>completed\<close>, \<open>_initialize_sync\<close> returns \<open>True\<close> at once
  and stores nothing, so any number of calls, in whatever worlds, return \<open>True\<close> and
  leave the object as it is; and in a system whose build has completed, no sequence of
  steps (calls of \<open>initialize\<close> in the background or the foreground, and what their
  threads do) changes the object: \<open>completed\<close> is final.
\<close>

theorem completed_is_idempotent:
  "(status_of self = Completed \<longrightarrow>
      initialize_sync cfg w self = (True, [])
      \<and> initialize_calls cfg ws self = (replicate (length ws) True, self))
   \<and> (settled sys \<and> (step cfg W)\<^sup>*\<^sup>* sys sys' \<longrightarrow> settled sys' \<and> shared sys' = shared sys)"
  using settled_steps[of cfg W sys sys']
  by (auto simp add: completed_returns completed_calls)

theorem completed_is_idempotent_witness:
  "status_of catalog_predictor = Completed
   \<and> initialize_sync default_config world_missing_column catalog_predictor = (True, [])
   \<and> initialize_calls default_config [catalog_world, world_missing_column, world_encoder_fails]
        catalog_predictor = ([True, True, True], catalog_predictor)
   \<and> settled completed_system
   \<and> (step default_config {catalog_world})\<^sup>*\<^sup>* completed_system (initialize True completed_system)
   \<and> settled (initialize True completed_system)
   \<and> shared (initialize True completed_system) = catalog_predictor"
proof -
  have s: "settled completed_system"
    by (simp add: settled_def completed_system_def)
  have r: "(step default_config {catalog_world})\<^sup>*\<^sup>* completed_system (initialize True completed_system)"
    by (intro r_into_rtranclp step.call)
  show ?thesis
    using completed_is_idempotent[of catalog_predictor default_config world_missing_column
        "[catalog_world, world_missing_column, world_encoder_fails]" completed_system
        "{catalog_world}" "initialize True completed_system"] s r
    by (simp add: completed_system_def)
qed

section \<open>Readers and the lock\<close>

lemma world_model_fails_fields [simp]:
  "login world_model_fails = (\<lambda>token. None)"
  "SentenceTransformer world_model_fails = (\<lambda>name. Inl ''model not found'')"
  "time_start world_model_fails = 100"
  "time_end world_model_fails = 160"
  by (simp_all add: world_model_fails_def)

lemma failed_predictor_fields [simp]:
  "status_of failed_predictor = Failed"
  "error (initialization_status failed_predictor) = Some ''Initialization failed: model not found''"
  "end_time (initialization_status failed_predictor) = Some 160"
  "start_time (initialization_status failed_predictor) = Some 100"
  by (simp_all add: failed_predictor_def initialize_now_def build_defs status_of_def)

lemma failed_build:
  "fst (initialize_sync default_config world_model_fails new_predictor) = False"
  by (simp add: build_defs)

lemma failed_predictor_last:
  "failed_predictor = last (new_predictor # snd (initialize_sync default_config world_model_fails new_predictor))"
  by (simp add: failed_predictor_def initialize_now_def split: prod.split)

lemma retry_build:
  "fst (initialize_sync default_config catalog_world failed_predictor) = True"
  "snd (initialize_sync default_config catalog_world failed_predictor)
     = set_status InProgress failed_predictor
       # tl (snd (initialize_sync default_config catalog_world failed_predictor))"
  by (simp_all add: build_defs required_columns_def)

lemma reachable_retry_system:
  "reachable default_config {world_model_fails, catalog_world} retry_system"
proof -
  let ?W = "{world_model_fails, catalog_world}"
  let ?ws1 = "snd (initialize_sync default_config world_model_fails new_predictor)"
  let ?ws2 = "snd (initialize_sync default_config catalog_world failed_predictor)"
  let ?sys1 = "\<lparr> shared = new_predictor, lock_held = False, threads = [Waiting],
                  initialization_thread = Some 0 \<rparr>"
  let ?sys2 = "\<lparr> shared = new_predictor, lock_held = True, threads = [Running False ?ws1],
                  initialization_thread = Some 0 \<rparr>"
  let ?sys3 = "\<lparr> shared = failed_predictor, lock_held = True, threads = [Running False []],
                  initialization_thread = Some 0 \<rparr>"
  let ?sys4 = "\<lparr> shared = failed_predictor, lock_held = False, threads = [Finished False],
                  initialization_thread = Some 0 \<rparr>"
  let ?sys5 = "\<lparr> shared = failed_predictor, lock_held = False,
                  threads = [Finished False, Waiting], initialization_thread = Some 1 \<rparr>"
  let ?sys6 = "\<lparr> shared = failed_predictor, lock_held = True,
                  threads = [Finished False, Running True ?ws2],
                  initialization_thread = Some 1 \<rparr>"
  have "step default_config ?W new_system (initialize True new_system)"
    by (rule step.call)
  then have 1: "reachable default_config ?W ?sys1"
    using reachable.further[OF reachable.start]
    by (simp add: initialize_def new_system_def thread_alive_def)
  have "step default_config ?W ?sys1
          (?sys1\<lparr> lock_held := True, threads := (threads ?sys1)[0 := Running False ?ws1] \<rparr>)"
    using failed_build
    by (intro step.acquire[where w = world_model_fails]) (simp_all add: prod_eq_iff)
  from reachable.further[OF 1 this] have 2: "reachable default_config ?W ?sys2"
    by simp
  have 3: "reachable default_config ?W ?sys3"
    using reachable_stores[OF 2, of 0 False ?ws1 "[]"]
    by (simp add: failed_predictor_last)
  have "step default_config ?W ?sys3
          (?sys3\<lparr> lock_held := False, threads := (threads ?sys3)[0 := Finished False] \<rparr>)"
    by (intro step.release) simp_all
  from reachable.further[OF 3 this] have 4: "reachable default_config ?W ?sys4"
    by simp
  have "step default_config ?W ?sys4 (initialize True ?sys4)"
    by (rule step.call)
  then have 5: "reachable default_config ?W ?sys5"
    using reachable.further[OF 4]
    by (simp add: initialize_def thread_alive_def)
  have "step default_config ?W ?sys5
          (?sys5\<lparr> lock_held := True, threads := (threads ?sys5)[1 := Running True ?ws2] \<rparr>)"
    using retry_build(1)
    by (intro step.acquire[where w = catalog_world]) (simp_all add: prod_eq_iff)
  from reachable.further[OF 5 this] have 6: "reachable default_config ?W ?sys6"
    by simp
  have "step default_config ?W ?sys6
          (?sys6\<lparr> shared := set_status InProgress failed_predictor,
                  threads := (threads ?sys6)[1 := Running True (tl ?ws2)] \<rparr>)"
    using retry_build(2)
    by (intro step.store_next) simp_all
  from reachable.further[OF 6 this] show ?thesis
    by (simp add: retry_system_def)
qed

text \<open>
  C8, the part that fails: every read of the initialization state is made under the
  lock, so that no caller sees a state written by halves. \<open>get_status\<close> takes no lock.
  After a first build has failed, a second is started; its thread, inside the lock, has
  stored the status \<open>in_progress\<close> (line 54) and not yet the rest (lines 55-58). A
  reader calling \<open>get_status\<close> at that moment is not held back, and is told that the
  status is \<open>in_progress\<close> together with the error and the end time of the failed
  build.
\<close>

theorem reader_sees_half_written_status:
  "reachable default_config {world_model_fails, catalog_world} retry_system
   \<and> lock_held retry_system
   \<and> status (get_status 200 (shared retry_system)) = InProgress
   \<and> error (get_status 200 (shared retry_system)) = Some ''Initialization failed: model not found''
   \<and> end_time (get_status 200 (shared retry_system)) = Some 160"
  using reachable_retry_system
  by (simp add: retry_system_def get_status_def Let_def)

lemma loading_state [simp]:
  "status_of (shared loading_system) = InProgress"
  "df_drugs (shared loading_system) = Some catalog_csv"
  "drug_embeddings (shared loading_system) = None"
  "lock_held loading_system"
  "thread_alive loading_system"
  by (simp_all add: loading_system_def build_defs required_columns_def thread_alive_def)

text \<open>
  C8, as amended: at most one build runs at a time. No two activations of
  \<open>_initialize_sync\<close> are inside the lock, and the lock is held exactly while one is; a
  background \<open>initialize\<close> issued while the background thread is alive starts nothing
  and leaves the system as it is; while the status is \<open>in_progress\<close> the lock is held,
  so any other activation waits; and every step that changes the object is made with
  the lock held. (The readers take no lock: see the report of \<open>get_status\<close> above.)
\<close>

theorem one_build_at_a_time:
  assumes "reachable cfg W sys"
  shows "exclusive sys
         \<and> (thread_alive sys \<longrightarrow> initialize True sys = sys)
         \<and> (status_of (shared sys) = InProgress \<longrightarrow> lock_held sys)
         \<and> (step cfg W sys sys' \<and> shared sys' \<noteq> shared sys \<longrightarrow> lock_held sys \<and> lock_held sys')"
proof -
  have e: "exclusive sys"
    using assms by (rule reachable_exclusive)
  have "safe False sys"
    using assms by (intro reachable_safe) simp_all
  then have 3: "status_of (shared sys) = InProgress \<longrightarrow> lock_held sys"
    by (auto simp add: safe_def)
  have 4: "lock_held sys \<and> lock_held sys'"
    if st: "step cfg W sys sys'" and ne: "shared sys' \<noteq> shared sys"
    using st
  proof cases
    case (call background)
    then show ?thesis using ne by (simp add: initialize_def split: if_splits)
  next
    case (acquire i w r writes)
    then show ?thesis using ne by simp
  next
    case (store_next i r s rest)
    then have "lock_held sys"
      using e by (auto simp add: exclusive_def list_ex_running)
    then show ?thesis using store_next(1) by simp
  next
    case (release i r)
    then show ?thesis using ne by simp
  qed
  show ?thesis
    using e 3 4 by (auto simp add: initialize_def)
qed

theorem one_build_at_a_time_witness:
  "reachable default_config {catalog_world} loading_system
   \<and> exclusive loading_system
   \<and> thread_alive loading_system
   \<and> initialize True loading_system = loading_system
   \<and> status_of (shared loading_system) = InProgress
   \<and> lock_held loading_system"
  using one_build_at_a_time[OF reachable_loading_system, of loading_system]
    reachable_loading_system
  by simp

section \<open>Statistics of the catalog\<close>

text \<open>
  C10: \<open>get_stats\<close> returns the marker \<open>Database not loaded\<close> exactly when no frame
  has been assigned, and statistics otherwise, whatever the status: while the build of
  the catalog is in progress (the lock held, the frame just read) it reports the three
  records of the file; after the build that failed on a missing column it reports the
  two records and the one column of the file as read; after the build whose encoder
  raised it reports the processed frame, with no embedding shape.
\<close>

theorem get_stats_gate:
  "(get_stats cfg self = Inl ''Database not loaded'' \<longleftrightarrow> df_drugs self = None)
   \<and> (isl (get_stats cfg self) \<longleftrightarrow> df_drugs self = None)
   \<and> reachable default_config {catalog_world} loading_system
   \<and> lock_held loading_system
   \<and> status_of (shared loading_system) = InProgress
   \<and> get_stats default_config (shared loading_system)
       = Inr \<lparr> total_drugs = 3, stats_columns = [''Nama'', ''DeskripsiObat''],
               embedding_shape = None, model_name = ''your-username/your-model-name'',
               csv_path = ''data/df_obat.csv'' \<rparr>
   \<and> status_of (snd (initialize_now default_config world_missing_column new_predictor)) = Failed
   \<and> get_stats default_config (snd (initialize_now default_config world_missing_column new_predictor))
       = Inr \<lparr> total_drugs = 2, stats_columns = [''Nama''],
               embedding_shape = None, model_name = ''your-username/your-model-name'',
               csv_path = ''data/df_obat.csv'' \<rparr>
   \<and> status_of (snd (initialize_now default_config world_encoder_fails new_predictor)) = Failed
   \<and> get_stats default_config (snd (initialize_now default_config world_encoder_fails new_predictor))
       = Inr \<lparr> total_drugs = 3, stats_columns = [''Nama'', ''DeskripsiObat'', ''ObatLengkap''],
               embedding_shape = None, model_name = ''your-username/your-model-name'',
               csv_path = ''data/df_obat.csv'' \<rparr>"
proof -
  have 1: "(get_stats cfg self = Inl ''Database not loaded'' \<longleftrightarrow> df_drugs self = None)
           \<and> (isl (get_stats cfg self) \<longleftrightarrow> df_drugs self = None)"
    by (simp add: get_stats_def split: option.split)
  have 2: "get_stats default_config (shared loading_system)
       = Inr \<lparr> total_drugs = 3, stats_columns = [''Nama'', ''DeskripsiObat''],
               embedding_shape = None, model_name = ''your-username/your-model-name'',
               csv_path = ''data/df_obat.csv'' \<rparr>"
    by (simp add: get_stats_def catalog_csv_def)
  have 3: "status_of (snd (initialize_now default_config world_missing_column new_predictor)) = Failed
   \<and> get_stats default_config (snd (initialize_now default_config world_missing_column new_predictor))
       = Inr \<lparr> total_drugs = 2, stats_columns = [''Nama''],
               embedding_shape = None, model_name = ''your-username/your-model-name'',
               csv_path = ''data/df_obat.csv'' \<rparr>"
    by (simp add: initialize_now_def build_defs required_columns_def get_stats_def)
  have 4: "status_of (snd (initialize_now default_config world_encoder_fails new_predictor)) = Failed
   \<and> get_stats default_config (snd (initialize_now default_config world_encoder_fails new_predictor))
       = Inr \<lparr> total_drugs = 3, stats_columns = [''Nama'', ''DeskripsiObat'', ''ObatLengkap''],
               embedding_shape = None, model_name = ''your-username/your-model-name'',
               csv_path = ''data/df_obat.csv'' \<rparr>"
    by (simp add: initialize_now_def build_defs required_columns_def get_stats_def
          drop_duplicates_def set_column_def catalog_csv_def csv_row_def)
  show ?thesis
    using 1 2 3 4 reachable_loading_system by simp
qed

section \<open>Waiting for the build\<close>

lemma wait_loop_stop:
  "\<not> goes_on T t0 p
   \<Longrightarrow> wait_loop T t0 (p # rest) = Some (clock p - t0 < T \<and> seen p = Completed, [])"
  by (cases "seen p") (simp_all add: goes_on_def)

lemma wait_loop_goes_on:
  "goes_on T t0 p
   \<Longrightarrow> wait_loop T t0 (p # rest)
       = (case wait_loop T t0 rest of None \<Rightarrow> None
          | Some (r, es) \<Rightarrow> Some (r, turn_events p @ es))"
  by (cases "seen p") (auto simp add: goes_on_def turn_events_def split: option.split)

lemma wait_loop_prefix:
  "list_all (goes_on T t0) pre
   \<Longrightarrow> wait_loop T t0 (pre @ rest)
       = (case wait_loop T t0 rest of None \<Rightarrow> None
          | Some (r, es) \<Rightarrow> Some (r, concat (map turn_events pre) @ es))"
proof (induction pre)
  case Nil
  then show ?case by (simp split: option.split)
next
  case (Cons p pre)
  then show ?case
    by (simp add: wait_loop_goes_on del: wait_loop.simps split: option.split)
qed

lemma wait_loop_returns:
  "\<forall>i<length polls. c + real i \<le> clock (polls ! i) - t0 \<Longrightarrow> T \<le> c + real n
   \<Longrightarrow> n < length polls \<Longrightarrow> wait_loop T t0 polls \<noteq> None"
proof (induction polls arbitrary: c n)
  case Nil
  then show ?case by simp
next
  case (Cons p ps)
  show ?case
  proof (cases "goes_on T t0 p")
    case False
    then show ?thesis by (simp add: wait_loop_stop del: wait_loop.simps)
  next
    case True
    have c0: "c \<le> clock p - t0"
      using Cons.prems(1) by force
    have "n \<noteq> 0"
      using True c0 Cons.prems(2) by (auto simp add: goes_on_def)
    then obtain k where n: "n = Suc k"
      by (cases n) simp_all
    have "\<forall>i<length ps. (c + 1) + real i \<le> clock (ps ! i) - t0"
    proof (intro allI impI)
      fix i assume "i < length ps"
      then have "c + real (Suc i) \<le> clock ((p # ps) ! Suc i) - t0"
        using Cons.prems(1) by (metis Suc_less_eq length_Cons)
      then show "(c + 1) + real i \<le> clock (ps ! i) - t0" by simp
    qed
    moreover have "T \<le> (c + 1) + real k"
      using Cons.prems(2) n by simp
    moreover have "k < length ps"
      using Cons.prems(3) n by simp
    ultimately have "wait_loop T t0 ps \<noteq> None"
      by (rule Cons.IH)
    then show ?thesis
      using True by (auto simp add: wait_loop_goes_on simp del: wait_loop.simps)
  qed
qed

text \<open>
  C9: \<open>wait_for_initialization\<close> polls until a turn does not go on. If the polls
  before \<open>p\<close> all go on (in time, and seeing \<open>not_started\<close> or \<open>in_progress\<close>) and
  \<open>p\<close> does not, the result is \<open>True\<close> exactly when \<open>p\<close> is in time and sees
  \<open>completed\<close>: so \<open>False\<close> when it sees \<open>failed\<close>, and \<open>False\<close> when the timeout
  has elapsed. Each turn that goes on sleeps one second, after a call of
  \<open>initialize(background=True)\<close> if it saw \<open>not_started\<close>. Since the clock advances by
  at least a second from poll to poll, the loop returns once the polls outnumber the
  timeout. The timeout is the one given, and the configured \<open>STARTUP_TIMEOUT\<close> when
  none (or zero) is given.
\<close>

theorem wait_for_initialization_result:
  "(list_all (goes_on (timeout_or_default cfg timeout) t0) pre
      \<and> \<not> goes_on (timeout_or_default cfg timeout) t0 p
    \<longrightarrow> wait_for_initialization cfg timeout t0 (pre @ p # rest)
          = Some (clock p - t0 < timeout_or_default cfg timeout \<and> seen p = Completed,
                  concat (map turn_events pre)))
   \<and> ((\<forall>i<length polls. t0 + real i \<le> clock (polls ! i))
        \<and> timeout_or_default cfg timeout \<le> real n \<and> n < length polls
      \<longrightarrow> wait_for_initialization cfg timeout t0 polls \<noteq> None)
   \<and> timeout_or_default cfg None = real_of_int (STARTUP_TIMEOUT cfg)
   \<and> (t \<noteq> 0 \<longrightarrow> timeout_or_default cfg (Some t) = t)"
proof -
  have 1: "wait_for_initialization cfg timeout t0 (pre @ p # rest)
          = Some (clock p - t0 < timeout_or_default cfg timeout \<and> seen p = Completed,
                  concat (map turn_events pre))"
    if "list_all (goes_on (timeout_or_default cfg timeout) t0) pre"
      and "\<not> goes_on (timeout_or_default cfg timeout) t0 p"
    using that
    by (simp add: wait_for_initialization_def wait_loop_prefix wait_loop_stop del: wait_loop.simps)
  have 2: "wait_for_initialization cfg timeout t0 polls \<noteq> None"
    if "\<forall>i<length polls. t0 + real i \<le> clock (polls ! i)"
      and "timeout_or_default cfg timeout \<le> real n" and "n < length polls"
    unfolding wait_for_initialization_def
    using that by (intro wait_loop_returns[where c = 0 and n = n]) (simp_all add: algebra_simps)
  show ?thesis
    using 1 2 by (auto simp add: timeout_or_default_def truthy_def)
qed

theorem wait_for_initialization_result_witness:
  "wait_for_initialization default_config (Some 3) 10
       [\<lparr>clock = 10, seen = NotStarted\<rparr>, \<lparr>clock = 11.2, seen = InProgress\<rparr>,
        \<lparr>clock = 12.3, seen = Completed\<rparr>]
     = Some (True, [Initialize_background, Sleep 1, Sleep 1])
   \<and> wait_for_initialization default_config (Some 3) 10
       [\<lparr>clock = 10, seen = InProgress\<rparr>, \<lparr>clock = 11, seen = Failed\<rparr>]
     = Some (False, [Sleep 1])
   \<and> wait_for_initialization default_config (Some 3) 10
       [\<lparr>clock = 10, seen = InProgress\<rparr>, \<lparr>clock = 11, seen = InProgress\<rparr>,
        \<lparr>clock = 12, seen = InProgress\<rparr>, \<lparr>clock = 13, seen = Completed\<rparr>]
     = Some (False, [Sleep 1, Sleep 1, Sleep 1])
   \<and> wait_for_initialization default_config (Some 3) 10
       [\<lparr>clock = 10, seen = InProgress\<rparr>, \<lparr>clock = 11, seen = InProgress\<rparr>,
        \<lparr>clock = 12, seen = InProgress\<rparr>, \<lparr>clock = 13, seen = Completed\<rparr>] \<noteq> None
   \<and> timeout_or_default default_config (Some 3) = 3
   \<and> timeout_or_default default_config (Some 0) = 600"
proof -
  have t: "timeout_or_default default_config (Some 3) = 3"
    using wait_for_initialization_result[of default_config "Some 3" 10 "[]" "\<lparr>clock = 13, seen = Completed\<rparr>" "[]" "[]" 0 3]
    by simp
  have a: "wait_for_initialization default_config (Some 3) 10
       ([\<lparr>clock = 10, seen = NotStarted\<rparr>, \<lparr>clock = 11.2, seen = InProgress\<rparr>] @
        \<lparr>clock = 12.3, seen = Completed\<rparr> # [])
     = Some (True, [Initialize_background, Sleep 1, Sleep 1])"
    using wait_for_initialization_result[of default_config "Some 3" 10
        "[\<lparr>clock = 10, seen = NotStarted\<rparr>, \<lparr>clock = 11.2, seen = InProgress\<rparr>]"
        "\<lparr>clock = 12.3, seen = Completed\<rparr>" "[]" "[]" 0 3]
    by (simp add: goes_on_def turn_events_def t)
  have b: "wait_for_initialization default_config (Some 3) 10
       ([\<lparr>clock = 10, seen = InProgress\<rparr>] @ \<lparr>clock = 11, seen = Failed\<rparr> # [])
     = Some (False, [Sleep 1])"
    using wait_for_initialization_result[of default_config "Some 3" 10
        "[\<lparr>clock = 10, seen = InProgress\<rparr>]" "\<lparr>clock = 11, seen = Failed\<rparr>" "[]" "[]" 0 3]
    by (simp add: goes_on_def turn_events_def t)
  have c: "wait_for_initialization default_config (Some 3) 10
       ([\<lparr>clock = 10, seen = InProgress\<rparr>, \<lparr>clock = 11, seen = InProgress\<rparr>,
        \<lparr>clock = 12, seen = InProgress\<rparr>] @ \<lparr>clock = 13, seen = Completed\<rparr> # [])
     = Some (False, [Sleep 1, Sleep 1, Sleep 1])"
    using wait_for_initialization_result[of default_config "Some 3" 10
        "[\<lparr>clock = 10, seen = InProgress\<rparr>, \<lparr>clock = 11, seen = InProgress\<rparr>,
        \<lparr>clock = 12, seen = InProgress\<rparr>]" "\<lparr>clock = 13, seen = Completed\<rparr>" "[]" "[]" 0 3]
    by (simp add: goes_on_def turn_events_def t)
  have d: "wait_for_initialization default_config (Some 3) 10
       [\<lparr>clock = 10, seen = InProgress\<rparr>, \<lparr>clock = 11, seen = InProgress\<rparr>,
        \<lparr>clock = 12, seen = InProgress\<rparr>, \<lparr>clock = 13, seen = Completed\<rparr>] \<noteq> None"
    using wait_for_initialization_result[of default_config "Some 3" 10 "[]"
        "\<lparr>clock = 13, seen = Completed\<rparr>" "[]"
        "[\<lparr>clock = 10, seen = InProgress\<rparr>, \<lparr>clock = 11, seen = InProgress\<rparr>,
        \<lparr>clock = 12, seen = InProgress\<rparr>, \<lparr>clock = 13, seen = Completed\<rparr>]" 3 3]
    by (simp add: t less_Suc_eq numeral_eq_Suc)
  show ?thesis
    using a b c d t by (simp add: timeout_or_default_def truthy_def)
qed

section \<open>What a build publishes\<close>

text \<open>Every state with the status \<open>completed\<close> that a build stores, and so every
  such state a reader finds, holds the encoder and a frame with the columns \<open>Nama\<close>
  and \<open>DeskripsiObat\<close>.\<close>

lemma index_complete_set [simp]:
  "index_complete (set_status v s) = index_complete s"
  "index_complete (set_error e s) = index_complete s"
  "index_complete (set_progress p s) = index_complete s"
  "index_complete (set_message m s) = index_complete s"
  "index_complete (set_start_time t s) = index_complete s"
  "index_complete (set_end_time t s) = index_complete s"
  "index_complete (set_drug_embeddings y s) = index_complete s"
  by (simp_all add: index_complete_def)

lemma set_column_keeps: "x \<in> set (columns df) \<Longrightarrow> x \<in> set (columns (set_column c vals df))"
  by (simp add: set_column_def)

lemma building_published: "building tr \<Longrightarrow> list_all published tr"
  by (simp add: building_def published_def list_all_iff)

lemma completed_published:
  assumes "building tr" and "index_complete (hd tr)"
  shows "list_all published (stores [set_status Completed, set_progress p, set_message m,
                                     set_error e, set_end_time t] tr)"
  using assms building_published[OF assms(1)]
  by (simp add: store_def published_def)

lemma published_butlast: "list_all published tr \<Longrightarrow> list_all published (rev (butlast tr))"
  by (auto simp add: list_all_iff dest: in_set_butlastD)

lemma load_drug_database_columns:
  "fst (load_drug_database cfg w tr) \<longrightarrow>
     (\<exists>df. df_drugs (hd (snd (load_drug_database cfg w tr))) = Some df
        \<and> ''Nama'' \<in> set (columns df) \<and> ''DeskripsiObat'' \<in> set (columns df))"
  by (auto simp add: load_drug_database_def load_drug_database_try_def Let_def
        required_columns_def set_column_keeps split: option.split sum.split if_splits)

lemma generate_embeddings_keeps:
  "model (hd (snd (generate_embeddings tr))) = model (hd tr)"
  "df_drugs (hd (snd (generate_embeddings tr))) = df_drugs (hd tr)"
  by (simp_all add: generate_embeddings_def generate_embeddings_try_def Let_def
        split: option.split sum.split)

lemma published_initialize_sync:
  "list_all published (snd (initialize_sync cfg w self))"
proof (cases "status_of self = Completed \<or> status_of self = InProgress")
  case True
  then have "snd (initialize_sync cfg w self) = []"
    by (auto simp add: initialize_sync_def)
  then show ?thesis by simp
next
  case False
  define tr0 where "tr0 = stores [set_status InProgress, set_progress 0,
      set_message ''Starting initialization...'', set_start_time (Some (time_start w)),
      set_error None] [self]"
  have "building [self]"
    using False by (simp add: building_def)
  then have b0: "building tr0"
    by (simp add: tr0_def)
  obtain e1 tr1 where s1: "login_step cfg w tr0 = (e1, tr1)"
    by (cases "login_step cfg w tr0")
  have b1: "building tr1"
    using login_step_trace(1)[OF b0, of cfg w] s1 by simp
  show ?thesis
  proof (cases e1)
    case (Some e)
    have "building (stores [set_status Failed,
            set_error (Some (''Initialization failed: '' @ str e)),
            set_message (''Initialization failed: '' @ str e),
            set_end_time (Some (time_end w))] tr1)"
      using b1 building_nonempty[OF b1] building_hd[OF b1] by simp
    then have "list_all published (rev (butlast (stores [set_status Failed,
            set_error (Some (''Initialization failed: '' @ str e)),
            set_message (''Initialization failed: '' @ str e),
            set_end_time (Some (time_end w))] tr1)))"
      by (intro published_butlast building_published)
    then show ?thesis
      using False s1 Some
      by (simp add: initialize_sync_def initialize_sync_try_def Let_def tr0_def[symmetric]
            del: stores_simps)
  next
    case None
    define tr2 where "tr2 = stores [set_progress 20,
                             set_message ''Loading model from Hugging Face...''] tr1"
    have b2: "building tr2"
      using b1 building_nonempty[OF b1] building_hd[OF b1] by (simp add: tr2_def)
    show ?thesis
    proof (cases "SentenceTransformer w (MODEL_NAME cfg)")
      case (Inl msg)
      have "building (stores [set_status Failed,
            set_error (Some (''Initialization failed: '' @ str (LibraryError msg))),
            set_message (''Initialization failed: '' @ str (LibraryError msg)),
            set_end_time (Some (time_end w))] tr2)"
        using b2 building_nonempty[OF b2] building_hd[OF b2] by simp
      then have "list_all published (rev (butlast (stores [set_status Failed,
            set_error (Some (''Initialization failed: '' @ str (LibraryError msg))),
            set_message (''Initialization failed: '' @ str (LibraryError msg)),
            set_end_time (Some (time_end w))] tr2)))"
        by (intro published_butlast building_published)
      then show ?thesis
        using False s1 None Inl
        by (simp add: initialize_sync_def initialize_sync_try_def Let_def
              tr0_def[symmetric] tr2_def[symmetric] del: stores_simps)
    next
      case (Inr enc)
      define tr3 where "tr3 = stores [set_model (Some enc), set_progress 50,
                                      set_message ''Model loaded successfully'',
                                      set_progress 60,
                                      set_message ''Loading drug database...''] tr2"
      have b3: "building tr3" and m3: "model (hd tr3) = Some enc"
        using b2 building_nonempty[OF b2] building_hd[OF b2] by (simp_all add: tr3_def)
      obtain ok4 tr4 where s4: "load_drug_database cfg w tr3 = (ok4, tr4)"
        by (cases "load_drug_database cfg w tr3")
      have b4: "building tr4" and m4: "model (hd tr4) = Some enc"
        and c4: "ok4 \<longrightarrow> (\<exists>df. df_drugs (hd tr4) = Some df
                   \<and> ''Nama'' \<in> set (columns df) \<and> ''DeskripsiObat'' \<in> set (columns df))"
        using load_drug_database_trace[OF b3, of cfg w] load_drug_database_columns[of cfg w tr3]
          s4 m3 by simp_all
      show ?thesis
      proof (cases ok4)
        case False4: False
        have "list_all published (rev (butlast tr4))"
          using b4 by (intro published_butlast building_published)
        then show ?thesis
          using False s1 None Inr s4 False4
          by (simp add: initialize_sync_def initialize_sync_try_def Let_def
                tr0_def[symmetric] tr2_def[symmetric] tr3_def[symmetric] del: stores_simps)
      next
        case True4: True
        define tr5 where "tr5 = stores [set_progress 80,
                                        set_message ''Generating embeddings...''] tr4"
        have b5: "building tr5" and m5: "model (hd tr5) = Some enc"
          and d5: "df_drugs (hd tr5) = df_drugs (hd tr4)"
          using b4 m4 building_nonempty[OF b4] building_hd[OF b4] by (simp_all add: tr5_def)
        obtain ok6 tr6 where s6: "generate_embeddings tr5 = (ok6, tr6)"
          by (cases "generate_embeddings tr5")
        have b6: "building tr6" and m6: "model (hd tr6) = Some enc"
          and d6: "df_drugs (hd tr6) = df_drugs (hd tr4)"
          using generate_embeddings_trace(1)[OF b5] generate_embeddings_keeps[of tr5] s6 m5 d5
          by simp_all
        show ?thesis
        proof (cases ok6)
          case False6: False
          have "list_all published (rev (butlast tr6))"
            using b6 by (intro published_butlast building_published)
          then show ?thesis
            using False s1 None Inr s4 True4 s6 False6
            by (simp add: initialize_sync_def initialize_sync_try_def Let_def
                  tr0_def[symmetric] tr2_def[symmetric] tr3_def[symmetric] tr5_def[symmetric]
                  del: stores_simps)
        next
          case True6: True
          have "index_complete (hd tr6)"
            using c4 True4 m6 d6 by (auto simp add: index_complete_def)
          then have "list_all published (rev (butlast (stores [set_status Completed,
                 set_progress 100, set_message ''Initialization completed successfully'',
                 set_error None, set_end_time (Some (time_end w))] tr6)))"
            using b6 by (intro published_butlast completed_published)
          then show ?thesis
            using False s1 None Inr s4 True4 s6 True6
            by (simp add: initialize_sync_def initialize_sync_try_def Let_def
                  tr0_def[symmetric] tr2_def[symmetric] tr3_def[symmetric] tr5_def[symmetric]
                  del: stores_simps)
        qed
      qed
    qed
  qed
qed

lemma all_published_step:
  assumes "all_published sys" and "step cfg W sys sys'"
  shows "all_published sys'"
  using assms(2)
proof cases
  case (call background)
  then show ?thesis
    using assms(1) by (auto simp add: all_published_def initialize_def)
next
  case (acquire i w r writes)
  have "list_all published writes"
    using published_initialize_sync[of cfg w "shared sys"] acquire(6) by simp
  then show ?thesis
    using assms(1) unfolding acquire(1) all_published_def
    by (auto simp add: list_all_iff dest!: set_update_subset_insert[THEN subsetD])
next
  case (store_next i r s rest)
  have "list_all published (s # rest)"
    using assms(1) store_next(2,3) nth_mem[of i "threads sys"]
    by (auto simp add: all_published_def list_all_iff)
  then show ?thesis
    using assms(1) unfolding store_next(1) all_published_def
    by (auto simp add: list_all_iff dest!: set_update_subset_insert[THEN subsetD])
next
  case (release i r)
  then show ?thesis
    using assms(1) unfolding all_published_def
    by (auto simp add: list_all_iff dest!: set_update_subset_insert[THEN subsetD])
qed

lemma all_published_new: "all_published new_system"
  by (simp add: all_published_def new_system_def published_def)

lemma reachable_published: "reachable cfg W sys \<Longrightarrow> all_published sys"
  by (induction rule: reachable.induct) (simp_all add: all_published_new all_published_step)

lemma published_index:
  assumes "reachable cfg W sys" and "\<forall>w\<in>W. encoder_rows w"
    and "status_of (shared sys) = Completed"
  shows "\<exists>m df e. model (shared sys) = Some m \<and> df_drugs (shared sys) = Some df
           \<and> drug_embeddings (shared sys) = Some e \<and> length (rows df) = length e
           \<and> ''Nama'' \<in> set (columns df) \<and> ''DeskripsiObat'' \<in> set (columns df)"
proof -
  have "safe True sys"
    using assms(1,2) by (intro reachable_safe) simp_all
  then have "index_consistent (shared sys)"
    using assms(3) by (simp add: safe_def)
  moreover have "index_complete (shared sys)"
    using reachable_published[OF assms(1)] assms(3) by (simp add: all_published_def published_def)
  ultimately show ?thesis
    by (auto simp add: index_consistent_def index_complete_def split: option.splits)
qed

section \<open>The ranking of a query\<close>

text \<open>The scores of the query \<open>fever\<close> on the catalog, the errors \<open>predict\<close> raises
  itself, and what the cut of a reversed ascending argsort holds.\<close>

lemma scores_order: "score_0_5 \<le> score_0_9" "score_0_5 \<noteq> score_0_9"
  by (simp_all add: score_0_9_def score_0_5_def binary64_def)

lemma argsort_scenario: "argsort catalog_world [score_0_9, score_0_9, score_0_5] = [2, 0, 1]"
  by (simp add: catalog_argsort_def)

lemma ascending_argsort_contract:
  "distinct (ascending_argsort xs)" "set (ascending_argsort xs) = {0..<length xs}"
  "sorted (map (\<lambda>i. xs ! i) (ascending_argsort xs))"
  by (simp_all add: ascending_argsort_def)

lemma catalog_argsort_contract:
  "distinct (catalog_argsort xs)" "set (catalog_argsort xs) = {0..<length xs}"
  "sorted (map (\<lambda>i. xs ! i) (catalog_argsort xs))"
  using scores_order(1)
  by (auto simp add: catalog_argsort_def ascending_argsort_contract)

lemma catalog_similarities:
  "cosine_similarity catalog_world [catalog_vector ''fever'']
     (Some [catalog_vector ''A - a'', catalog_vector ''B - b'', catalog_vector ''C - c''])
   = Inr [[score_0_9, score_0_9, score_0_5]]"
  by (simp add: catalog_cosine_def catalog_score_def catalog_vector_def)

lemma strip_fever: "strip (''fever'' @ '' '' @ []) = ''fever''"
  by (simp add: strip_def isspace_def)

lemma strip_empty_iff: "strip s = [] \<longleftrightarrow> (\<forall>c\<in>set s. isspace c)"
proof
  assume "strip s = []"
  then have e: "dropWhile isspace (rev (dropWhile isspace s)) = []"
    by (simp add: strip_def)
  show "\<forall>c\<in>set s. isspace c"
  proof (cases "dropWhile isspace s = []")
    case True
    then show ?thesis by simp
  next
    case False
    then have "\<not> isspace (hd (dropWhile isspace s))"
      by (rule hd_dropWhile)
    moreover have "hd (dropWhile isspace s) \<in> set (rev (dropWhile isspace s))"
      using False by simp
    ultimately show ?thesis
      using e by auto
  qed
next
  assume "\<forall>c\<in>set s. isspace c"
  then show "strip s = []"
    by (auto simp add: strip_def dest: set_dropWhileD)
qed

lemma isspace_blank [simp]: "isspace CHR '' ''"
  by (simp add: isspace_def)

lemma strip_query_empty:
  "strip (keluhan @ '' '' @ anamnesa) = [] \<longleftrightarrow> strip keluhan = [] \<and> strip anamnesa = []"
  by (auto simp add: strip_empty_iff)

lemma format_results_error:
  "format_results df i ps = Inl e
   \<Longrightarrow> (\<exists>m. e = AttributeError m) \<or> (\<exists>m. e = IndexError m) \<or> (\<exists>m. e = KeyError m)"
  by (induction df i ps rule: format_results.induct)
     (auto split: option.splits if_splits sum.splits)

lemma format_results_own_errors [simp]:
  "format_results df i ps \<noteq> Inl (RuntimeError m)"
  "format_results df i ps \<noteq> Inl (ValueError m)"
  using format_results_error[of df i ps] by auto

lemma predict_blank:
  "status_of self = Completed \<Longrightarrow> strip (keluhan @ '' '' @ anamnesa) = []
   \<Longrightarrow> predict w self keluhan anamnesa top_k = Inl (ValueError ''Query cannot be empty'')"
  by (simp add: predict_def)

lemma predict_value_error_sources:
  assumes "predict w self keluhan anamnesa top_k = Inl (ValueError msg)"
  shows "status_of self = Completed
         \<and> (strip (keluhan @ '' '' @ anamnesa) = []
            \<or> (\<exists>m. model self = Some m
                  \<and> m [strip (keluhan @ '' '' @ anamnesa)] = Inl (ValueError msg))
            \<or> (\<exists>m q. model self = Some m
                  \<and> m [strip (keluhan @ '' '' @ anamnesa)] = Inr q
                  \<and> cosine_similarity w q (drug_embeddings self) = Inl (ValueError msg)))"
  using assms
  by (simp add: predict_def Let_def split: if_splits option.splits sum.splits list.splits)

lemma format_results_ok:
  assumes "\<forall>idx\<in>set idxs. idx < length (rows df)"
    and "''Nama'' \<in> set (columns df)" and "''DeskripsiObat'' \<in> set (columns df)"
  shows "\<exists>rs. format_results (Some df) i (zip idxs (map f idxs)) = Inr rs
           \<and> map nama_obat rs = map (\<lambda>idx. (rows df ! idx) ''Nama'') idxs
           \<and> map deskripsi_obat rs = map (\<lambda>idx. (rows df ! idx) ''DeskripsiObat'') idxs
           \<and> map similarity_score rs = map (\<lambda>idx. Finite (f idx)) idxs
           \<and> map rank rs = map Suc [i..<i + length idxs]
           \<and> (\<forall>r\<in>set rs. confidence r = get_confidence_level (similarity_score r))"
  using assms(1)
proof (induction idxs arbitrary: i)
  case Nil
  then show ?case by simp
next
  case (Cons idx idxs)
  then obtain rs where rs: "format_results (Some df) (Suc i) (zip idxs (map f idxs)) = Inr rs"
      "map nama_obat rs = map (\<lambda>idx. (rows df ! idx) ''Nama'') idxs"
      "map deskripsi_obat rs = map (\<lambda>idx. (rows df ! idx) ''DeskripsiObat'') idxs"
      "map similarity_score rs = map (\<lambda>idx. Finite (f idx)) idxs"
      "map rank rs = map Suc [Suc i..<Suc i + length idxs]"
      "\<forall>r\<in>set rs. confidence r = get_confidence_level (similarity_score r)"
    by (metis list.set_intros(2))
  have "idx < length (rows df)"
    using Cons.prems by simp
  moreover have "[i..<i + length (idx # idxs)] = i # [Suc i..<Suc i + length idxs]"
    by (simp add: upt_rec)
  ultimately show ?case
    using rs assms(2,3) by simp
qed

lemma slice_to_take: "\<exists>k. slice_to n xs = take k xs"
  by (auto simp add: slice_to_def)

lemma top_indices_properties:
  fixes similarities :: "real list"
  assumes perm: "distinct (argsort w similarities)"
      "set (argsort w similarities) = {0..<length similarities}"
    and asc: "sorted (map (\<lambda>i. similarities ! i) (argsort w similarities))"
  shows "set (top_indices w similarities top_k) \<subseteq> {0..<length similarities}"
    and "distinct (top_indices w similarities top_k)"
    and "sorted (rev (map (\<lambda>i. similarities ! i) (top_indices w similarities top_k)))"
    and "0 \<le> top_k \<longrightarrow> length (top_indices w similarities top_k) = min (nat top_k) (length similarities)"
    and "0 \<le> top_k \<longrightarrow> (\<forall>j<length similarities. j \<notin> set (top_indices w similarities top_k) \<longrightarrow>
           (\<forall>i\<in>set (top_indices w similarities top_k). similarities ! j \<le> similarities ! i))"
proof -
  let ?as = "argsort w similarities"
  let ?f = "\<lambda>i. similarities ! i"
  obtain k where k: "top_indices w similarities top_k = take k (rev ?as)"
    using slice_to_take[of top_k "rev ?as"] by (auto simp add: top_indices_def)
  have desc: "sorted_wrt (\<lambda>x y. ?f y \<le> ?f x) (rev ?as)"
    using asc by (simp add: sorted_map sorted_wrt_rev)
  show "set (top_indices w similarities top_k) \<subseteq> {0..<length similarities}"
    using perm(2) set_take_subset[of k "rev ?as"] unfolding k by auto
  show "distinct (top_indices w similarities top_k)"
    using perm(1) unfolding k by simp
  have "sorted_wrt (\<lambda>x y. ?f y \<le> ?f x) (take k (rev ?as))"
    using desc by (rule sorted_wrt_take)
  then show "sorted (rev (map ?f (top_indices w similarities top_k)))"
    unfolding k by (simp add: sorted_wrt_rev sorted_wrt_map)
  have len: "length ?as = length similarities"
    using perm distinct_card[of ?as] by simp
  show "0 \<le> top_k \<longrightarrow> length (top_indices w similarities top_k) = min (nat top_k) (length similarities)"
    using len by (simp add: top_indices_def slice_to_def min.commute)
  show "0 \<le> top_k \<longrightarrow> (\<forall>j<length similarities. j \<notin> set (top_indices w similarities top_k) \<longrightarrow>
           (\<forall>i\<in>set (top_indices w similarities top_k). similarities ! j \<le> similarities ! i))"
  proof (intro impI allI ballI)
    fix j i
    assume "j < length similarities" and nin: "j \<notin> set (top_indices w similarities top_k)"
      and iin: "i \<in> set (top_indices w similarities top_k)"
    then have "j \<in> set (rev ?as)"
      using perm(2) by simp
    then have "j \<in> set (take k (rev ?as)) \<or> j \<in> set (drop k (rev ?as))"
      by (metis Un_iff append_take_drop_id set_append)
    then have jd: "j \<in> set (drop k (rev ?as))"
      using nin unfolding k by simp
    have "sorted_wrt (\<lambda>x y. ?f y \<le> ?f x) (take k (rev ?as) @ drop k (rev ?as))"
      using desc by simp
    then show "similarities ! j \<le> similarities ! i"
      using jd iin unfolding k sorted_wrt_append by blast
  qed
qed

lemma catalog_frame_eq:
  "drop_duplicates ''ObatLengkap'' (set_column ''ObatLengkap''
       (map (\<lambda>r. r ''Nama'' @ '' - '' @ r ''DeskripsiObat'') (rows catalog_csv)) catalog_csv)
   = catalog_frame"
  by (simp add: drop_duplicates_def set_column_def catalog_csv_def csv_row_def catalog_frame_def)

lemma catalog_index:
  "df_drugs catalog_predictor = Some catalog_frame"
  "drug_embeddings catalog_predictor
   = Some [catalog_vector ''A - a'', catalog_vector ''B - b'', catalog_vector ''C - c'']"
  using catalog_frame_eq by (simp_all add: catalog_frame_def)

lemma catalog_top_indices:
  "top_indices catalog_world [score_0_9, score_0_9, score_0_5] 2 = [1, 0]"
  "top_indices catalog_world [score_0_9, score_0_9, score_0_5] 1 = [1]"
  by (simp_all add: top_indices_def slice_to_def catalog_argsort_def)

lemma catalog_predict:
  "predict catalog_world catalog_predictor ''fever'' [] top_k
   = format_results (Some catalog_frame) 0
       (zip (top_indices catalog_world [score_0_9, score_0_9, score_0_5] top_k)
            (map (\<lambda>idx. [score_0_9, score_0_9, score_0_5] ! idx)
               (top_indices catalog_world [score_0_9, score_0_9, score_0_5] top_k)))"
proof -
  have "\<not> list_ex (\<lambda>idx. length [score_0_9, score_0_9, score_0_5] \<le> idx)
          (top_indices catalog_world [score_0_9, score_0_9, score_0_5] top_k)"
    using top_indices_properties(1)[of catalog_world "[score_0_9, score_0_9, score_0_5]" top_k]
      catalog_argsort_contract[of "[score_0_9, score_0_9, score_0_5]"]
    by (auto simp add: list_ex_iff)
  then show ?thesis
    using strip_fever catalog_similarities
    by (simp add: predict_def Let_def catalog_index del: world_fields(7) catalog_fields(2,3))
qed

lemma score_labels:
  "get_confidence_level (Finite score_0_9) = ''high''"
  "get_confidence_level (Finite score_0_5) = ''low''"
  by (simp_all add: get_confidence_level_def score_0_9_def score_0_5_def literal_0_8_def
        literal_0_6_def literal_0_4_def binary64_def)

text \<open>
  C1 (the scenario as the code runs it): the catalog holds A, B, C in this order and
  the query scores 0.9 against A, 0.9 against B and 0.5 against C. \<open>np.argsort\<close> of the
  three scores is \<open>[2, 0, 1]\<close>; line 207 reverses it to \<open>[1, 0, 2]\<close>, so with
  \<open>top_k = 2\<close> the result is B at rank 1 and A at rank 2, not A before B.
\<close>

theorem tie_in_reverse_catalog_order:
  "map (\<lambda>r. r ''Nama'') (rows (the (df_drugs catalog_predictor))) = [''A'', ''B'', ''C'']
   \<and> cosine_similarity catalog_world [catalog_vector ''fever'']
        (drug_embeddings catalog_predictor) = Inr [[score_0_9, score_0_9, score_0_5]]
   \<and> argsort catalog_world [score_0_9, score_0_9, score_0_5] = [2, 0, 1]
   \<and> predict catalog_world catalog_predictor ''fever'' [] 2
       = Inr [\<lparr> rank = 1, nama_obat = ''B'', deskripsi_obat = ''b'',
                similarity_score = Finite score_0_9, confidence = ''high'' \<rparr>,
              \<lparr> rank = 2, nama_obat = ''A'', deskripsi_obat = ''a'',
                similarity_score = Finite score_0_9, confidence = ''high'' \<rparr>]"
  using catalog_similarities catalog_top_indices(1) argsort_scenario
  by (simp add: catalog_predict catalog_index catalog_frame_def csv_row_def
        score_labels del: world_fields(7,8) catalog_fields(2,3))

text \<open>
  C1 (as the code has it): on a published index (the object of a reachable system with
  the status \<open>completed\<close>, built by encoders that give one row per text), for a query
  that is not blank, when \<open>model.encode\<close> returns, \<open>cosine_similarity\<close> returns a matrix
  whose first row holds one score per embedding, and \<open>np.argsort\<close> returns the positions
  in ascending order of the scores, \<open>predict\<close> returns the records at the positions
  \<open>argsort(similarities)[::-1][:top_k]\<close>, with their names, descriptions, scores and
  labels, ranked 1, 2, ...: the scores are in descending order, no record appears twice,
  for \<open>top_k\<close> at least 0 there are \<open>min(top_k, n)\<close> results for the \<open>n\<close> records of the
  catalog, and no record left out scores higher than a record returned. Records with
  equal scores come in the reverse of the order \<open>np.argsort\<close> leaves them in, whatever
  that is; nothing puts them in catalog order.
\<close>

theorem predict_ranking:
  assumes pub: "reachable cfg W sys" "\<forall>b\<in>W. encoder_rows b"
      "status_of (shared sys) = Completed"
    and query: "strip (keluhan @ '' '' @ anamnesa) \<noteq> []"
    and enc: "the (model (shared sys)) [strip (keluhan @ '' '' @ anamnesa)] = Inr q"
    and sim: "cosine_similarity w q (drug_embeddings (shared sys)) = Inr (similarities # others)"
        "length similarities = length (the (drug_embeddings (shared sys)))"
    and perm: "distinct (argsort w similarities)"
        "set (argsort w similarities) = {0..<length similarities}"
    and asc: "sorted (map (\<lambda>i. similarities ! i) (argsort w similarities))"
  shows "\<exists>results.
           predict w (shared sys) keluhan anamnesa top_k = Inr results
           \<and> map nama_obat results
               = map (\<lambda>i. (rows (the (df_drugs (shared sys))) ! i) ''Nama'')
                   (slice_to top_k (rev (argsort w similarities)))
           \<and> map deskripsi_obat results
               = map (\<lambda>i. (rows (the (df_drugs (shared sys))) ! i) ''DeskripsiObat'')
                   (slice_to top_k (rev (argsort w similarities)))
           \<and> map similarity_score results
               = map (\<lambda>i. Finite (similarities ! i)) (slice_to top_k (rev (argsort w similarities)))
           \<and> map rank results = map Suc [0..<length results]
           \<and> (\<forall>r\<in>set results. confidence r = get_confidence_level (similarity_score r))
           \<and> sorted (rev (map (\<lambda>i. similarities ! i) (slice_to top_k (rev (argsort w similarities)))))
           \<and> distinct (slice_to top_k (rev (argsort w similarities)))
           \<and> (0 \<le> top_k \<longrightarrow> length results = min (nat top_k) (length (rows (the (df_drugs (shared sys))))))
           \<and> (0 \<le> top_k \<longrightarrow>
                (\<forall>j<length similarities. j \<notin> set (slice_to top_k (rev (argsort w similarities))) \<longrightarrow>
                   (\<forall>i\<in>set (slice_to top_k (rev (argsort w similarities))).
                      similarities ! j \<le> similarities ! i)))"
proof -
  let ?top = "top_indices w similarities top_k"
  obtain m df e where ix: "model (shared sys) = Some m" "df_drugs (shared sys) = Some df"
      "drug_embeddings (shared sys) = Some e" "length (rows df) = length e"
      "''Nama'' \<in> set (columns df)" "''DeskripsiObat'' \<in> set (columns df)"
    using published_index[OF pub] by blast
  have n: "length (rows df) = length similarities"
    using ix(3,4) sim(2) by simp
  note tp = top_indices_properties[OF perm asc, of top_k]
  have range: "\<forall>idx\<in>set ?top. idx < length (rows df)"
    using tp(1) n by auto
  obtain rs where rs:
      "format_results (Some df) 0 (zip ?top (map (\<lambda>i. similarities ! i) ?top)) = Inr rs"
      "map nama_obat rs = map (\<lambda>idx. (rows df ! idx) ''Nama'') ?top"
      "map deskripsi_obat rs = map (\<lambda>idx. (rows df ! idx) ''DeskripsiObat'') ?top"
      "map similarity_score rs = map (\<lambda>i. Finite (similarities ! i)) ?top"
      "map rank rs = map Suc [0..<0 + length ?top]"
      "\<forall>r\<in>set rs. confidence r = get_confidence_level (similarity_score r)"
    using format_results_ok[OF range ix(5,6), of 0 "\<lambda>i. similarities ! i"] by blast
  have len: "length rs = length ?top"
    using rs(2) by (metis length_map)
  have no_ex: "\<not> list_ex (\<lambda>idx. length similarities \<le> idx) ?top"
    using tp(1) by (auto simp add: list_ex_iff)
  have p: "predict w (shared sys) keluhan anamnesa top_k = Inr rs"
    using pub(3) query enc sim(1) ix(1,2) no_ex rs(1) by (simp add: predict_def Let_def)
  show ?thesis
    using p rs(2,3,4,5,6) tp(2,3,4,5) len n ix(2)
    by (intro exI[of _ rs]) (simp add: top_indices_def)
qed

theorem predict_ranking_witness:
  "reachable default_config {catalog_world} completed_system
   \<and> encoder_rows catalog_world
   \<and> status_of (shared completed_system) = Completed
   \<and> cosine_similarity catalog_world [catalog_vector ''fever'']
        (drug_embeddings (shared completed_system)) = Inr [[score_0_9, score_0_9, score_0_5]]
   \<and> argsort catalog_world [score_0_9, score_0_9, score_0_5] = [2, 0, 1]
   \<and> (\<exists>results. predict catalog_world (shared completed_system) ''fever'' [] 2 = Inr results
         \<and> map nama_obat results = [''B'', ''A'']
         \<and> map deskripsi_obat results = [''b'', ''a'']
         \<and> map similarity_score results = [Finite score_0_9, Finite score_0_9]
         \<and> map rank results = [1, 2]
         \<and> map confidence results = [''high'', ''high''])"
proof -
  have sh: "shared completed_system = catalog_predictor"
    by (simp add: completed_system_def)
  have h: "strip (''fever'' @ '' '' @ []) \<noteq> []"
      "the (model (shared completed_system)) [strip (''fever'' @ '' '' @ [])]
         = Inr [catalog_vector ''fever'']"
      "cosine_similarity catalog_world [catalog_vector ''fever'']
         (drug_embeddings (shared completed_system))
       = Inr ([score_0_9, score_0_9, score_0_5] # [])"
      "length [score_0_9, score_0_9, score_0_5]
         = length (the (drug_embeddings (shared completed_system)))"
    using strip_fever catalog_similarities
    by (simp_all add: sh catalog_index del: world_fields(7) catalog_fields(2,3))
  have c: "distinct (argsort catalog_world [score_0_9, score_0_9, score_0_5])"
      "set (argsort catalog_world [score_0_9, score_0_9, score_0_5])
         = {0..<length [score_0_9, score_0_9, score_0_5]}"
      "sorted (map (\<lambda>i. [score_0_9, score_0_9, score_0_5] ! i)
                 (argsort catalog_world [score_0_9, score_0_9, score_0_5]))"
    using catalog_argsort_contract[of "[score_0_9, score_0_9, score_0_5]"] by simp_all
  have w: "\<forall>b\<in>{catalog_world}. encoder_rows b"
    using encoder_rows_catalog by simp
  obtain results where r: "predict catalog_world (shared completed_system) ''fever'' [] 2 = Inr results"
      "map nama_obat results
         = map (\<lambda>i. (rows (the (df_drugs (shared completed_system))) ! i) ''Nama'')
             (slice_to 2 (rev (argsort catalog_world [score_0_9, score_0_9, score_0_5])))"
      "map deskripsi_obat results
         = map (\<lambda>i. (rows (the (df_drugs (shared completed_system))) ! i) ''DeskripsiObat'')
             (slice_to 2 (rev (argsort catalog_world [score_0_9, score_0_9, score_0_5])))"
      "map similarity_score results
         = map (\<lambda>i. Finite ([score_0_9, score_0_9, score_0_5] ! i))
             (slice_to 2 (rev (argsort catalog_world [score_0_9, score_0_9, score_0_5])))"
      "map rank results = map Suc [0..<length results]"
      "\<forall>r\<in>set results. confidence r = get_confidence_level (similarity_score r)"
    using predict_ranking[OF reachable_completed_system w _ h(1) h(2) h(3) h(4) c,
        of 2] catalog_status
    by (auto simp add: sh simp del: world_fields(7,8) catalog_fields(2,3))
  have top: "slice_to 2 (rev (argsort catalog_world [score_0_9, score_0_9, score_0_5])) = [1, 0]"
    using catalog_top_indices(1) by (simp add: top_indices_def)
  have n: "map nama_obat results = [''B'', ''A'']" "map deskripsi_obat results = [''b'', ''a'']"
      "map similarity_score results = [Finite score_0_9, Finite score_0_9]"
    using r(2,3,4) unfolding top
    by (simp_all add: sh catalog_index catalog_frame_def csv_row_def del: catalog_fields(2,3))
  have l: "length results = 2"
    using n(1) by (metis length_map length_Cons list.size(3) One_nat_def Suc_1)
  have k: "map rank results = [1, 2]"
    using r(5) l by (simp add: upt_rec)
  have "map confidence results = map get_confidence_level (map similarity_score results)"
    using r(6) by simp
  then have cf: "map confidence results = [''high'', ''high'']"
    unfolding n(3) by (simp add: score_labels)
  show ?thesis
    using reachable_completed_system encoder_rows_catalog catalog_status h(3) argsort_scenario
      r(1) n k cf
    by (simp add: sh del: world_fields(7,8) catalog_fields(2,3))
qed

section \<open>A query on a catalog without records\<close>

lemma world_header_only_fields [simp]:
  "login world_header_only = (\<lambda>token. None)"
  "SentenceTransformer world_header_only = (\<lambda>name. Inr catalog_encoder)"
  "path_exists world_header_only = (\<lambda>path. True)"
  "read_csv world_header_only
     = (\<lambda>path. Inr \<lparr> columns = [''Nama'', ''DeskripsiObat''], rows = [] \<rparr>)"
  "time_start world_header_only = 100"
  "time_end world_header_only = 160"
  "cosine_similarity world_header_only = catalog_cosine"
  "argsort world_header_only = catalog_argsort"
  by (simp_all add: world_header_only_def)

lemma header_only_build:
  "fst (initialize_now default_config world_header_only new_predictor) = True"
  "status_of header_only_predictor = Completed"
  "model header_only_predictor = Some catalog_encoder"
  "df_drugs header_only_predictor
     = Some \<lparr> columns = [''Nama'', ''DeskripsiObat'', ''ObatLengkap''], rows = [] \<rparr>"
  "drug_embeddings header_only_predictor = Some []"
  by (simp_all add: header_only_predictor_def initialize_now_def build_defs required_columns_def
        set_column_def drop_duplicates_def)

text \<open>
  C5: with the status \<open>completed\<close>, \<open>predict\<close> raises \<open>ValueError\<close> only for a query
  that is blank, and \<open>predict("fever", "")\<close> succeeds. A file with the header line and
  no record passes the column check: the build completes, with a consistent index of no
  record. On that object the query \<open>fever\<close>, which is not blank, reaches
  \<open>cosine_similarity\<close> with an empty array, and the \<open>ValueError\<close> of its input check
  leaves \<open>predict\<close> uncaught.
\<close>

theorem ready_query_raises_value_error:
  "fst (initialize_now default_config world_header_only new_predictor) = True
   \<and> status_of header_only_predictor = Completed
   \<and> index_consistent header_only_predictor
   \<and> df_drugs header_only_predictor
       = Some \<lparr> columns = [''Nama'', ''DeskripsiObat'', ''ObatLengkap''], rows = [] \<rparr>
   \<and> drug_embeddings header_only_predictor = Some []
   \<and> strip (''fever'' @ '' '' @ []) = ''fever''
   \<and> predict world_header_only header_only_predictor ''fever'' [] 5
       = Inl (ValueError ''Found array with 0 sample(s) while a minimum of 1 is required'')"
  using strip_fever
  by (simp add: header_only_build index_consistent_def predict_def catalog_cosine_def)

section \<open>A failed build and its end time\<close>

text \<open>
  C3: a failure at any step of the build ends the run with the status \<open>failed\<close>, the
  error recorded and the end time set. For a file that lacks a required column, and for
  an encoder that raises, the run returns \<open>False\<close> with the status \<open>failed\<close> and the
  error recorded, but \<open>end_time\<close> is still \<open>None\<close> (and the message is still that of
  the step): the handlers of \<open>_load_drug_database\<close> and \<open>_generate_embeddings\<close> store
  the status and the error only, and \<open>_initialize_sync\<close> returns without reaching its
  own handler, the one that stores the end time.
\<close>

theorem failed_build_without_end_time:
  "fst (initialize_now default_config world_missing_column new_predictor) = False
   \<and> initialization_status (snd (initialize_now default_config world_missing_column new_predictor))
       = \<lparr> status = Failed,
           error = Some (''Error loading drug database: Missing columns: ''
                         @ repr_list [''DeskripsiObat''] @ ''. Available: '' @ repr_list [''Nama'']),
           progress = 60, message = ''Loading drug database...'',
           start_time = Some 100, end_time = None \<rparr>
   \<and> fst (initialize_now default_config world_encoder_fails new_predictor) = False
   \<and> initialization_status (snd (initialize_now default_config world_encoder_fails new_predictor))
       = \<lparr> status = Failed,
           error = Some ''Error generating embeddings: out of memory'',
           progress = 80, message = ''Generating embeddings...'',
           start_time = Some 100, end_time = None \<rparr>"
  by (simp add: initialize_now_def build_defs required_columns_def)

section \<open>Confidence labels: floats and their thresholds\<close>

lemma float_lt_iff: "float_lt s t \<longleftrightarrow> s \<noteq> NaN \<and> t \<noteq> NaN \<and> \<not> float_ge s t"
  by (cases s; cases t) auto

lemma literals_nearest:
  "nearest_binary64 0.8 7205759403792794 (- 53)"
  "nearest_binary64 0.6 5404319552844595 (- 53)"
  "nearest_binary64 0.4 7205759403792794 (- 54)"
  "nearest_binary64 0.79999 7205669331800246 (- 53)"
  "nearest_binary64 0.39999 7205579259807699 (- 54)"
  "nearest_binary64 0.9 8106479329266893 (- 53)"
  "nearest_binary64 0.5 4503599627370496 (- 53)"
  by (simp_all add: nearest_binary64_def binary64_def)

lemma literals_order:
  "float_ge literal_0_8 literal_0_6" "float_ge literal_0_6 literal_0_4"
  "float_lt literal_0_6 literal_0_8" "float_lt literal_0_4 literal_0_6"
  by (simp_all add: literal_0_8_def literal_0_6_def literal_0_4_def binary64_def)

text \<open>Between two neighbours of the grid of binary64 numbers there is no
  binary64 number.\<close>

lemma binary64_grid:
  assumes m: "\<bar>m\<bar> < 2 ^ 53" and big: "2 ^ 52 \<le> binary64 m e * 2 ^ k"
  shows "\<exists>n::int. binary64 m e * 2 ^ k = of_int n"
proof (cases "- int k \<le> e")
  case True
  show ?thesis
  proof (cases "0 \<le> e")
    case True
    then have "binary64 m e * 2 ^ k = of_int (m * 2 ^ nat e * 2 ^ k)"
      by (simp add: binary64_def)
    then show ?thesis by blast
  next
    case False
    then have "k = nat (- e) + (k - nat (- e))"
      using \<open>- int k \<le> e\<close> by simp
    then have "(2::real) ^ k = 2 ^ nat (- e) * 2 ^ (k - nat (- e))"
      by (metis power_add)
    then have "binary64 m e * 2 ^ k = of_int (m * 2 ^ (k - nat (- e)))"
      using False by (simp add: binary64_def)
    then show ?thesis by blast
  qed
next
  case False
  then have ge: "Suc k \<le> nat (- e)" and neg: "\<not> 0 \<le> e"
    by simp_all
  have "(2::real) ^ Suc k \<le> 2 ^ nat (- e)"
    using ge by (intro power_increasing) simp_all
  then have p: "2 * (2::real) ^ k \<le> 2 ^ nat (- e)"
    by simp
  have "binary64 m e * 2 ^ k = of_int m * 2 ^ k / 2 ^ nat (- e)"
    using neg by (simp add: binary64_def)
  also have "\<dots> \<le> \<bar>of_int m * 2 ^ k / 2 ^ nat (- e)\<bar>"
    by (rule abs_ge_self)
  also have "\<dots> = \<bar>of_int m\<bar> * 2 ^ k / 2 ^ nat (- e)"
    by (simp add: abs_mult)
  also have "\<dots> \<le> \<bar>of_int m\<bar> * 2 ^ k / (2 * 2 ^ k)"
    using p by (intro divide_left_mono mult_nonneg_nonneg) simp_all
  also have "\<dots> = \<bar>of_int m\<bar> / 2"
    by simp
  also have "\<dots> < 2 ^ 53 / 2"
  proof -
    have "\<bar>real_of_int m\<bar> = real_of_int \<bar>m\<bar>" by simp
    also have "\<dots> < real_of_int (2 ^ 53)"
      using m by (simp only: of_int_less_iff)
    finally show ?thesis by simp
  qed
  finally have "binary64 m e * 2 ^ k < 2 ^ 52"
    by simp
  then show ?thesis
    using big by simp
qed

lemma threshold_above:
  assumes m: "\<bar>m\<bar> < 2 ^ 53" and M: "2 ^ 52 < M" and t: "of_int M - 1 < t * 2 ^ k" "t * 2 ^ k < of_int M"
  shows "of_int M / 2 ^ k \<le> binary64 m e \<longleftrightarrow> t \<le> binary64 m e"
proof
  assume "of_int M / 2 ^ k \<le> binary64 m e"
  then have "of_int M \<le> binary64 m e * 2 ^ k"
    by (simp add: divide_le_eq)
  then have "t * 2 ^ k \<le> binary64 m e * 2 ^ k"
    using t(2) by linarith
  then show "t \<le> binary64 m e"
    by simp
next
  assume a: "t \<le> binary64 m e"
  then have tk: "t * 2 ^ k \<le> binary64 m e * 2 ^ k"
    by simp
  have "2 ^ 52 + 1 \<le> M"
    using M by simp
  then have "real_of_int (2 ^ 52 + 1) \<le> real_of_int M"
    by (simp only: of_int_le_iff)
  then have "(2::real) ^ 52 \<le> of_int M - 1"
    by simp
  then have "2 ^ 52 \<le> binary64 m e * 2 ^ k"
    using t(1) tk by linarith
  then obtain n :: int where n: "binary64 m e * 2 ^ k = of_int n"
    using binary64_grid[OF m] by blast
  have "real_of_int (M - 1) < of_int n"
    using t(1) tk n by simp
  then have "M - 1 < n"
    by (simp only: of_int_less_iff)
  then have "M \<le> n"
    by simp
  then have "real_of_int M \<le> binary64 m e * 2 ^ k"
    unfolding n by (simp only: of_int_le_iff)
  then show "of_int M / 2 ^ k \<le> binary64 m e"
    by (simp add: divide_le_eq)
qed

lemma threshold_below:
  assumes m: "\<bar>m\<bar> < 2 ^ 53" and M: "2 ^ 52 \<le> M" and t: "of_int M < t * 2 ^ k" "t * 2 ^ k < of_int M + 1"
  shows "of_int M / 2 ^ k \<le> binary64 m e
         \<longleftrightarrow> t \<le> binary64 m e \<or> binary64 m e = of_int M / 2 ^ k"
proof
  assume "of_int M / 2 ^ k \<le> binary64 m e"
  then have a: "of_int M \<le> binary64 m e * 2 ^ k"
    by (simp add: divide_le_eq)
  have "real_of_int (2 ^ 52) \<le> of_int M"
    using M by (simp only: of_int_le_iff)
  then have "(2::real) ^ 52 \<le> of_int M"
    by simp
  then have "2 ^ 52 \<le> binary64 m e * 2 ^ k"
    using a by linarith
  then obtain n :: int where n: "binary64 m e * 2 ^ k = of_int n"
    using binary64_grid[OF m] by blast
  have Mn: "M \<le> n"
    using a unfolding n by (simp only: of_int_le_iff)
  show "t \<le> binary64 m e \<or> binary64 m e = of_int M / 2 ^ k"
  proof (cases "n = M")
    case True
    then have "binary64 m e = of_int M / 2 ^ k"
      using n by (simp add: eq_divide_eq)
    then show ?thesis by simp
  next
    case False
    then have "M + 1 \<le> n"
      using Mn by simp
    then have "real_of_int (M + 1) \<le> of_int n"
      by (simp only: of_int_le_iff)
    then have "t * 2 ^ k \<le> binary64 m e * 2 ^ k"
      using t(2) n by simp
    then show ?thesis by simp
  qed
next
  assume "t \<le> binary64 m e \<or> binary64 m e = of_int M / 2 ^ k"
  moreover have "of_int M / 2 ^ k < t"
    using t(1) by (simp add: divide_less_eq)
  ultimately show "of_int M / 2 ^ k \<le> binary64 m e"
    by auto
qed

text \<open>
  Against the decimals themselves: on every binary64 number the tests against \<open>0.8\<close>
  and \<open>0.4\<close> are the comparisons with 8/10 and 4/10, and the test against \<open>0.6\<close> is the
  comparison with 6/10 but for one number: the float \<open>0.6\<close> itself, just below 6/10,
  passes it.
\<close>

lemma float_thresholds_decimal:
  assumes "\<bar>m\<bar> < 2 ^ 53"
  shows "float_ge (Finite (binary64 m e)) literal_0_8 \<longleftrightarrow> 0.8 \<le> binary64 m e"
    and "float_ge (Finite (binary64 m e)) literal_0_6
         \<longleftrightarrow> 0.6 \<le> binary64 m e \<or> Finite (binary64 m e) = literal_0_6"
    and "float_ge (Finite (binary64 m e)) literal_0_4 \<longleftrightarrow> 0.4 \<le> binary64 m e"
proof -
  show "float_ge (Finite (binary64 m e)) literal_0_8 \<longleftrightarrow> 0.8 \<le> binary64 m e"
    using threshold_above[OF assms, of 7205759403792794 "0.8" 53 e]
    by (simp add: literal_0_8_def binary64_def[of 7205759403792794])
  show "float_ge (Finite (binary64 m e)) literal_0_6
         \<longleftrightarrow> 0.6 \<le> binary64 m e \<or> Finite (binary64 m e) = literal_0_6"
    using threshold_below[OF assms, of 5404319552844595 "0.6" 53 e]
    by (simp add: literal_0_6_def binary64_def[of 5404319552844595])
  show "float_ge (Finite (binary64 m e)) literal_0_4 \<longleftrightarrow> 0.4 \<le> binary64 m e"
    using threshold_above[OF assms, of 7205759403792794 "0.4" 54 e]
    by (simp add: literal_0_4_def binary64_def[of 7205759403792794])
qed

text \<open>
  C2: for every score, a Python float, the label is \<open>high\<close> exactly when
  \<open>score >= 0.8\<close>, \<open>medium\<close> exactly when \<open>0.6 <= score < 0.8\<close>, \<open>low\<close> exactly when
  \<open>0.4 <= score < 0.6\<close> and \<open>very_low\<close> exactly when \<open>score < 0.4\<close> (or the score is a
  NaN), the comparisons being those of floats with the floats the literals are read as,
  each the binary64 nearest to its decimal. The floats \<open>0.8\<close>, \<open>0.79999\<close>, \<open>0.6\<close>,
  \<open>0.4\<close>, \<open>0.39999\<close> and \<open>0.0\<close> are labelled \<open>high\<close>, \<open>medium\<close>, \<open>medium\<close>, \<open>low\<close>,
  \<open>very_low\<close> and \<open>very_low\<close>.
\<close>

theorem confidence_level_exact:
  "(get_confidence_level s = ''high'' \<longleftrightarrow> float_ge s literal_0_8)
   \<and> (get_confidence_level s = ''medium'' \<longleftrightarrow> float_ge s literal_0_6 \<and> float_lt s literal_0_8)
   \<and> (get_confidence_level s = ''low'' \<longleftrightarrow> float_ge s literal_0_4 \<and> float_lt s literal_0_6)
   \<and> (get_confidence_level s = ''very_low'' \<longleftrightarrow> float_lt s literal_0_4 \<or> s = NaN)
   \<and> literal_0_8 = Finite (binary64 7205759403792794 (- 53))
   \<and> nearest_binary64 0.8 7205759403792794 (- 53)
   \<and> literal_0_6 = Finite (binary64 5404319552844595 (- 53))
   \<and> nearest_binary64 0.6 5404319552844595 (- 53)
   \<and> literal_0_4 = Finite (binary64 7205759403792794 (- 54))
   \<and> nearest_binary64 0.4 7205759403792794 (- 54)
   \<and> get_confidence_level literal_0_8 = ''high''
   \<and> nearest_binary64 0.79999 7205669331800246 (- 53)
   \<and> get_confidence_level (Finite (binary64 7205669331800246 (- 53))) = ''medium''
   \<and> get_confidence_level literal_0_6 = ''medium''
   \<and> get_confidence_level literal_0_4 = ''low''
   \<and> nearest_binary64 0.39999 7205579259807699 (- 54)
   \<and> get_confidence_level (Finite (binary64 7205579259807699 (- 54))) = ''very_low''
   \<and> get_confidence_level (Finite 0) = ''very_low''"
proof -
  have labels: "(get_confidence_level s = ''high'' \<longleftrightarrow> float_ge s literal_0_8)
   \<and> (get_confidence_level s = ''medium'' \<longleftrightarrow> float_ge s literal_0_6 \<and> float_lt s literal_0_8)
   \<and> (get_confidence_level s = ''low'' \<longleftrightarrow> float_ge s literal_0_4 \<and> float_lt s literal_0_6)
   \<and> (get_confidence_level s = ''very_low'' \<longleftrightarrow> float_lt s literal_0_4 \<or> s = NaN)"
    by (cases s)
       (auto simp add: get_confidence_level_def literal_0_8_def literal_0_6_def literal_0_4_def
          binary64_def)
  have points: "get_confidence_level literal_0_8 = ''high''"
    "get_confidence_level (Finite (binary64 7205669331800246 (- 53))) = ''medium''"
    "get_confidence_level literal_0_6 = ''medium''"
    "get_confidence_level literal_0_4 = ''low''"
    "get_confidence_level (Finite (binary64 7205579259807699 (- 54))) = ''very_low''"
    "get_confidence_level (Finite 0) = ''very_low''"
    by (simp_all add: get_confidence_level_def literal_0_8_def literal_0_6_def literal_0_4_def
          binary64_def)
  show ?thesis
    using labels points literals_nearest
    by (simp add: literal_0_8_def literal_0_6_def literal_0_4_def)
qed

section \<open>The request layer's top-k: integers and booleans\<close>

text \<open>
  For a supplied integer the route behaves as a clamp to the default: inside
  [1, MAX\_TOP\_K] the value passes unchanged, outside the default replaces it; a
  missing key and every value that is neither an \<open>int\<close> nor a \<open>bool\<close> give the default.
\<close>

lemma request_top_k_int:
  "request_top_k cfg (data(''top_k'' \<mapsto> PyInt k)) =
     (if 1 \<le> k \<and> k \<le> MAX_TOP_K cfg then PyInt k else PyInt (DEFAULT_TOP_K cfg))"
  by (auto simp add: request_top_k_def Let_def)

lemma request_top_k_absent:
  "data ''top_k'' = None \<Longrightarrow> 1 \<le> DEFAULT_TOP_K cfg \<Longrightarrow> DEFAULT_TOP_K cfg \<le> MAX_TOP_K cfg
   \<Longrightarrow> request_top_k cfg data = PyInt (DEFAULT_TOP_K cfg)"
  by (simp add: request_top_k_def)

lemma request_top_k_not_int:
  "data ''top_k'' = Some v \<Longrightarrow> \<not> isinstance_int v
   \<Longrightarrow> request_top_k cfg data = PyInt (DEFAULT_TOP_K cfg)"
  by (simp add: request_top_k_def)

lemma request_top_k_examples:
  "request_top_k default_config [''top_k'' \<mapsto> PyInt 0] = PyInt 5
   \<and> request_top_k default_config [''top_k'' \<mapsto> PyInt (- 5)] = PyInt 5
   \<and> request_top_k default_config [''top_k'' \<mapsto> PyInt 21] = PyInt 5
   \<and> request_top_k default_config [''top_k'' \<mapsto> PyInt 7] = PyInt 7
   \<and> request_top_k default_config [''top_k'' \<mapsto> PyFloat 3] = PyInt 5
   \<and> request_top_k default_config [''top_k'' \<mapsto> PyStr ''3''] = PyInt 5
   \<and> request_top_k default_config [''top_k'' \<mapsto> PyBool False] = PyInt 5"
  by (simp add: request_top_k_def default_config_def)

text \<open>
  C7: a supplied top-k that is not an integer is replaced by the configured default.
  The JSON value \<open>true\<close> is not an integer, yet the route does not replace it:
  \<open>isinstance(True, int)\<close> holds and \<open>True\<close> compares as 1, so with the default
  configuration (default 5, maximum 20) the value \<open>True\<close> itself reaches the predictor.
\<close>

theorem request_top_k_true_passes:
  "request_top_k default_config [''top_k'' \<mapsto> PyBool True] = PyBool True
   \<and> request_top_k default_config [''top_k'' \<mapsto> PyBool True] \<noteq> PyInt (DEFAULT_TOP_K default_config)"
  by (simp add: request_top_k_def default_config_def)

end
